theory Spec2Isabelle
  imports Complex_Main "HOL-Library.Word" "HOL-Library.Multiset"
begin

section \<open>Python strings\<close>

text \<open>
  A Python \<open>str\<close> is modelled as a \<open>string\<close>: a list of characters whose code points lie
  in the range 0..255 (Latin-1). The character classes below are those of Python 3 on
  that range.
\<close>

definition code :: "char \<Rightarrow> nat" where
  "code c = of_char c"

definition in_range :: "char \<Rightarrow> char \<Rightarrow> char \<Rightarrow> bool" where
  "in_range lo hi c = (code lo \<le> code c \<and> code c \<le> code hi)"

text \<open>\<open>str.isspace\<close>, which is also the class \<open>\s\<close> of \<open>re\<close>.\<close>

definition isspace :: "char \<Rightarrow> bool" where
  "isspace c = (code c \<in> {0x09, 0x0A, 0x0B, 0x0C, 0x0D, 0x1C, 0x1D, 0x1E, 0x1F, 0x20, 0x85, 0xA0})"

text \<open>The class \<open>\d\<close> of \<open>re\<close>.\<close>

definition isdigit :: "char \<Rightarrow> bool" where
  "isdigit c = in_range CHR ''0'' CHR ''9'' c"

definition is_upper_az :: "char \<Rightarrow> bool" where
  "is_upper_az c = in_range CHR ''A'' CHR ''Z'' c"

definition is_lower_az :: "char \<Rightarrow> bool" where
  "is_lower_az c = in_range CHR ''a'' CHR ''z'' c"

text \<open>The class \<open>\w\<close> of \<open>re\<close>: \<open>c.isalnum() or c == '_'\<close>.\<close>

definition is_word :: "char \<Rightarrow> bool" where
  "is_word c = (isdigit c \<or> is_upper_az c \<or> is_lower_az c \<or> c = CHR ''_''
     \<or> code c \<in> {0xAA, 0xB2, 0xB3, 0xB5, 0xB9, 0xBA, 0xBC, 0xBD, 0xBE}
     \<or> (0xC0 \<le> code c \<and> code c \<noteq> 0xD7 \<and> code c \<noteq> 0xF7))"

text \<open>\<open>str.lower\<close> and \<open>str.upper\<close>, character by character.\<close>

definition lower_char :: "char \<Rightarrow> char" where
  "lower_char c =
     (if is_upper_az c \<or> (0xC0 \<le> code c \<and> code c \<le> 0xDE \<and> code c \<noteq> 0xD7)
      then char_of (code c + 32) else c)"

definition upper_char :: "char \<Rightarrow> char" where
  "upper_char c =
     (if is_lower_az c \<or> (0xE0 \<le> code c \<and> code c \<le> 0xFE \<and> code c \<noteq> 0xF7)
      then char_of (code c - 32) else c)"

definition lower :: "string \<Rightarrow> string" where
  "lower s = map lower_char s"

text \<open>\<open>s.strip()\<close>, \<open>s.lstrip(chars)\<close> and the slice \<open>s[:n]\<close>.\<close>

definition lstrip_space :: "string \<Rightarrow> string" where
  "lstrip_space s = dropWhile isspace s"

definition rstrip_space :: "string \<Rightarrow> string" where
  "rstrip_space s = rev (dropWhile isspace (rev s))"

definition strip :: "string \<Rightarrow> string" where
  "strip s = rstrip_space (lstrip_space s)"

definition lstrip_chars :: "string \<Rightarrow> string \<Rightarrow> string" where
  "lstrip_chars chars s = dropWhile (\<lambda>c. c \<in> set chars) s"

definition slice_to :: "nat \<Rightarrow> string \<Rightarrow> string" where
  "slice_to n s = take n s"

text \<open>\<open>str(n)\<close> for a non-negative integer.\<close>

definition digit_char :: "nat \<Rightarrow> char" where
  "digit_char d = char_of (code CHR ''0'' + d)"

fun str_nat :: "nat \<Rightarrow> string" where
  "str_nat n = (if n < 10 then [digit_char n] else str_nat (n div 10) @ [digit_char (n mod 10)])"

declare str_nat.simps [simp del]

section \<open>os.path\<close>

text \<open>
  \<open>s.rfind(c)\<close>: the highest index of \<open>c\<close> in \<open>s\<close>, or \<open>-1\<close>.
\<close>

definition rfind :: "char \<Rightarrow> string \<Rightarrow> int" where
  "rfind c s =
     (case filter (\<lambda>i. s ! i = c) (rev [0..<length s]) of
        [] \<Rightarrow> - 1
      | i # _ \<Rightarrow> int i)"

text \<open>\<open>os.path.basename\<close> (posixpath): \<open>p[p.rfind('/') + 1:]\<close>.\<close>

definition basename :: "string \<Rightarrow> string" where
  "basename p = drop (nat (rfind CHR ''/'' p + 1)) p"

text \<open>
  \<open>os.path.splitext(p)[1]\<close> (posixpath, through \<open>genericpath._splitext\<close>): the text from the
  last dot on, when that dot lies after the last separator and some character between the
  separator and the dot is not a dot; the empty string otherwise.
\<close>

definition splitext_ext :: "string \<Rightarrow> string" where
  "splitext_ext p =
     (let sepIndex = rfind CHR ''/'' p;
          dotIndex = rfind CHR ''.'' p
      in if dotIndex > sepIndex
            \<and> filter (\<lambda>i. p ! i \<noteq> CHR ''.'') [nat (sepIndex + 1)..<nat dotIndex] \<noteq> []
         then drop (nat dotIndex) p
         else [])"

section \<open>Regular expressions\<close>

text \<open>
  The fragment of \<open>re\<close> that the patterns of the classifier use: character sets, the
  word boundary \<open>\b\<close>, sequence, alternation, and repetition.
\<close>

text \<open>
  The members of a character set: a character, a range, and the classes \<open>\d\<close> and
  \<open>\s\<close>.
\<close>

datatype item = Ch char | Range char char | Digits | Spaces

primrec in_item :: "item \<Rightarrow> char \<Rightarrow> bool" where
  "in_item (Ch x) c = (c = x)"
| "in_item (Range lo hi) c = in_range lo hi c"
| "in_item Digits c = isdigit c"
| "in_item Spaces c = isspace c"

definition in_items :: "item list \<Rightarrow> char \<Rightarrow> bool" where
  "in_items items c = (filter (\<lambda>i. in_item i c) items \<noteq> [])"

text \<open>
  \<open>Sym\<close> is a character set (a literal character is a set of one); \<open>SymI\<close> is the same
  set under the flag \<open>re.I\<close>, which a character matches when its lower-case or its
  upper-case form is in the set.
\<close>

datatype regex =
    Eps
  | Sym "item list"
  | SymI "item list"
  | Bnd
  | Seq regex regex
  | Alt regex regex
  | Star regex

text \<open>
  A cursor is a position in the subject text: the character before the position (if any)
  and the text from the position on.
\<close>

type_synonym cursor = "char option \<times> string"

definition word_boundary :: "cursor \<Rightarrow> bool" where
  "word_boundary cur =
     ((case fst cur of None \<Rightarrow> False | Some c \<Rightarrow> is_word c)
      \<noteq> (case snd cur of [] \<Rightarrow> False | c # _ \<Rightarrow> is_word c))"

text \<open>
  \<open>closure n step cur\<close>: the cursors reached from \<open>cur\<close> by repeating \<open>step\<close>, each
  repetition consuming at least one character; \<open>n\<close> bounds the number of repetitions and
  is the number of characters left.
\<close>

primrec closure :: "nat \<Rightarrow> (cursor \<Rightarrow> cursor list) \<Rightarrow> cursor \<Rightarrow> cursor list" where
  "closure 0 step cur = [cur]"
| "closure (Suc n) step cur =
     cur # concat (map (closure n step)
                     (filter (\<lambda>nxt. length (snd nxt) < length (snd cur)) (step cur)))"

text \<open>\<open>run r cur\<close>: the cursors at which a match of \<open>r\<close> that starts at \<open>cur\<close> can end.\<close>

primrec run :: "regex \<Rightarrow> cursor \<Rightarrow> cursor list" where
  "run Eps cur = [cur]"
| "run (Sym items) cur =
     (case snd cur of
        [] \<Rightarrow> []
      | c # cs \<Rightarrow> if in_items items c then [(Some c, cs)] else [])"
| "run (SymI items) cur =
     (case snd cur of
        [] \<Rightarrow> []
      | c # cs \<Rightarrow>
          if in_items items (lower_char c) \<or> in_items items (upper_char c)
          then [(Some c, cs)] else [])"
| "run Bnd cur = (if word_boundary cur then [cur] else [])"
| "run (Seq a b) cur = concat (map (run b) (run a cur))"
| "run (Alt a b) cur = run a cur @ run b cur"
| "run (Star a) cur = closure (length (snd cur)) (run a) cur"

fun cursors :: "char option \<Rightarrow> string \<Rightarrow> cursor list" where
  "cursors prev [] = [(prev, [])]"
| "cursors prev (c # cs) = (prev, c # cs) # cursors (Some c) cs"

text \<open>\<open>pattern.search(text)\<close>, as a truth value: some match starts somewhere in the text.\<close>

definition re_search :: "regex \<Rightarrow> string \<Rightarrow> bool" where
  "re_search r text = (filter (\<lambda>cur. run r cur \<noteq> []) (cursors None text) \<noteq> [])"

subsection \<open>Pattern syntax\<close>

definition Lit :: "char \<Rightarrow> regex" where
  "Lit c = Sym [Ch c]"

definition OneOf :: "string \<Rightarrow> regex" where
  "OneOf cs = Sym (map Ch cs)"

definition seqs :: "regex list \<Rightarrow> regex" where
  "seqs rs = foldr Seq rs Eps"

fun alts :: "regex list \<Rightarrow> regex" where
  "alts [] = Sym []"
| "alts [r] = r"
| "alts (r # rs) = Alt r (alts rs)"

definition Lits :: "string \<Rightarrow> regex" where
  "Lits s = seqs (map Lit s)"

text \<open>\<open>r?\<close>, \<open>r+\<close>, \<open>r{n}\<close>, \<open>r{m,n}\<close> and \<open>r{m,}\<close>.\<close>

definition Opt :: "regex \<Rightarrow> regex" where
  "Opt r = Alt r Eps"

definition Plus :: "regex \<Rightarrow> regex" where
  "Plus r = Seq r (Star r)"

primrec Times :: "nat \<Rightarrow> regex \<Rightarrow> regex" where
  "Times 0 r = Eps"
| "Times (Suc n) r = Seq r (Times n r)"

primrec UpTo :: "nat \<Rightarrow> regex \<Rightarrow> regex" where
  "UpTo 0 r = Eps"
| "UpTo (Suc n) r = Opt (Seq r (UpTo n r))"

definition Between :: "nat \<Rightarrow> nat \<Rightarrow> regex \<Rightarrow> regex" where
  "Between m n r = Seq (Times m r) (UpTo (n - m) r)"

definition AtLeast :: "nat \<Rightarrow> regex \<Rightarrow> regex" where
  "AtLeast m r = Seq (Times m r) (Star r)"

text \<open>Compiling a pattern with the flag \<open>re.I\<close>.\<close>

primrec ignorecase :: "regex \<Rightarrow> regex" where
  "ignorecase Eps = Eps"
| "ignorecase (Sym items) = SymI items"
| "ignorecase (SymI items) = SymI items"
| "ignorecase Bnd = Bnd"
| "ignorecase (Seq a b) = Seq (ignorecase a) (ignorecase b)"
| "ignorecase (Alt a b) = Alt (ignorecase a) (ignorecase b)"
| "ignorecase (Star a) = Star (ignorecase a)"

section \<open>PII detection patterns\<close>

text \<open>\<open>\d\<close> and \<open>\s\<close>.\<close>

definition digit :: regex where
  "digit = Sym [Digits]"

definition space :: regex where
  "space = Sym [Spaces]"

text \<open>The ranges \<open>A-Z\<close>, \<open>a-z\<close> and \<open>0-9\<close> of a set.\<close>

definition AZ :: item where
  "AZ = Range CHR ''A'' CHR ''Z''"

definition az :: item where
  "az = Range CHR ''a'' CHR ''z''"

definition r09 :: item where
  "r09 = Range CHR ''0'' CHR ''9''"

text \<open>\<open>[0-9]\<close>, \<open>[A-Za-z]\<close>, \<open>[A-Z]\<close> and \<open>[a-z]\<close>.\<close>

definition d09 :: regex where
  "d09 = Sym [r09]"

definition alpha :: regex where
  "alpha = Sym [AZ, az]"

definition upper_az :: regex where
  "upper_az = Sym [AZ]"

definition lower_az :: regex where
  "lower_az = Sym [az]"

text \<open>\<^verbatim>\<open>\b\d{3}-\d{2}-\d{4}\b\<close>\<close>

definition ssn_us :: regex where
  "ssn_us = seqs [Bnd, Times 3 digit, Lit CHR ''-'', Times 2 digit, Lit CHR ''-'', Times 4 digit, Bnd]"

text \<open>\<^verbatim>\<open>\b(?:4[0-9]{12}(?:[0-9]{3})?|5[1-5][0-9]{14}|3[47][0-9]{13}|6(?:011|5[0-9]{2})[0-9]{12})\b\<close>\<close>

definition credit_card :: regex where
  "credit_card = seqs [Bnd,
     alts [seqs [Lit CHR ''4'', Times 12 d09, Opt (Times 3 d09)],
           seqs [Lit CHR ''5'', Sym [Range CHR ''1'' CHR ''5''], Times 14 d09],
           seqs [Lit CHR ''3'', OneOf ''47'', Times 13 d09],
           seqs [Lit CHR ''6'', alts [Lits ''011'', seqs [Lit CHR ''5'', Times 2 d09]], Times 12 d09]],
     Bnd]"

text \<open>\<^verbatim>\<open>\b(?:\d{1,3}\.){3}\d{1,3}\b\<close>\<close>

definition ip_v4 :: regex where
  "ip_v4 = seqs [Bnd, Times 3 (seqs [Between 1 3 digit, Lit CHR ''.'']), Between 1 3 digit, Bnd]"

text \<open>\<^verbatim>\<open>\b[A-Za-z0-9._%+-]+@[A-Za-z0-9.-]+\.[A-Za-z]{2,}\b\<close>\<close>

definition email :: regex where
  "email = seqs [Bnd,
     Plus (Sym ([AZ, az, r09] @ map Ch ''._%+-'')),
     Lit CHR ''@'',
     Plus (Sym ([AZ, az, r09] @ map Ch ''.-'')),
     Lit CHR ''.'',
     AtLeast 2 alpha,
     Bnd]"

text \<open>\<^verbatim>\<open>\b(?:\+?\d{1,3}[-.\s]?)?(?:\(?\d{3}\)?[-.\s]?)?\d{3}[-.\s]?\d{4}\b\<close>\<close>

definition phone_sep :: regex where
  "phone_sep = Sym [Ch CHR ''-'', Ch CHR ''.'', Spaces]"

definition phone :: regex where
  "phone = seqs [Bnd,
     Opt (seqs [Opt (Lit CHR ''+''), Between 1 3 digit, Opt phone_sep]),
     Opt (seqs [Opt (Lit CHR ''(''), Times 3 digit, Opt (Lit CHR '')''), Opt phone_sep]),
     Times 3 digit, Opt phone_sep, Times 4 digit,
     Bnd]"

text \<open>\<^verbatim>\<open>\b(?:\d{1,2}[\/\-]\d{1,2}[\/\-]\d{2,4})\b\<close>\<close>

definition dob :: regex where
  "dob = seqs [Bnd, Between 1 2 digit, OneOf ''/-'', Between 1 2 digit, OneOf ''/-'',
     Between 2 4 digit, Bnd]"

text \<open>\<^verbatim>\<open>\b(?:Acct|Account|Account Number|Routing|ABA)\b\<close> with \<open>re.I\<close>\<close>

definition routing_account :: regex where
  "routing_account = ignorecase (seqs [Bnd,
     alts [Lits ''Acct'', Lits ''Account'', Lits ''Account Number'', Lits ''Routing'', Lits ''ABA''],
     Bnd])"

text \<open>
  \<^verbatim>\<open>\b(password|passwd|pwd|contrase\~na|clave)\b\<close> with \<open>re.I\<close>; the fourth word is
  written in the source with the letter n with tilde, code point 0xF1.
\<close>

definition password_label :: regex where
  "password_label = ignorecase (seqs [Bnd,
     alts [Lits ''password'', Lits ''passwd'', Lits ''pwd'',
           Lits (''contrase'' @ [char_of (0xF1 :: nat)] @ ''a''), Lits ''clave''],
     Bnd])"

text \<open>
  \<^verbatim>\<open>\b(tarjeta|numero de tarjeta|n\'umero de tarjeta)\b\<close> with \<open>re.I\<close>; the third
  alternative is written in the source with the letter u with acute, code point 0xFA.
\<close>

definition spanish_cc_label :: regex where
  "spanish_cc_label = ignorecase (seqs [Bnd,
     alts [Lits ''tarjeta'', Lits ''numero de tarjeta'',
           Lits (''n'' @ [char_of (0xFA :: nat)] @ ''mero de tarjeta'')],
     Bnd])"

text \<open>\<^verbatim>\<open>\b(NSS|dni|cedula|rut)\b\<close> with \<open>re.I\<close>\<close>

definition spanish_ssn_label :: regex where
  "spanish_ssn_label = ignorecase (seqs [Bnd,
     alts [Lits ''NSS'', Lits ''dni'', Lits ''cedula'', Lits ''rut''],
     Bnd])"

text \<open>\<^verbatim>\<open>\b(?:S\d{5,9}|ID[:\s]?\d{5,9})\b\<close> with \<open>re.I\<close>\<close>

definition student_id :: regex where
  "student_id = ignorecase (seqs [Bnd,
     alts [seqs [Lit CHR ''S'', Between 5 9 digit],
           seqs [Lits ''ID'', Opt (Sym [Ch CHR '':'', Spaces]), Between 5 9 digit]],
     Bnd])"

text \<open>The dictionary \<open>PII_PATTERNS\<close>, in its order of insertion.\<close>

definition PII_PATTERNS :: "(string \<times> regex) list" where
  "PII_PATTERNS =
     [(''ssn_us'', ssn_us),
      (''credit_card'', credit_card),
      (''ip_v4'', ip_v4),
      (''email'', email),
      (''phone'', phone),
      (''dob'', dob),
      (''routing_account'', routing_account),
      (''password_label'', password_label),
      (''spanish_cc_label'', spanish_cc_label),
      (''spanish_ssn_label'', spanish_ssn_label),
      (''student_id'', student_id)]"

text \<open>\<open>find_pii\<close>: the keys whose pattern is found in the text, in the dictionary's order.\<close>

definition find_pii :: "string \<Rightarrow> string list" where
  "find_pii preview_text =
     map fst (filter (\<lambda>(key, pattern). re_search pattern preview_text) PII_PATTERNS)"

text \<open>
  The contextual patterns of \<open>analyze_single_file\<close>:
  \<^verbatim>\<open>\b[A-Z][a-z]+ [A-Z][a-z]+\b\<close>,
  \<^verbatim>\<open>\b\d{1,5}\s[A-Za-z0-9\s]+(Street|St|Ave|Avenue|Blvd|Road|Rd|Lane|Ln)\b\<close> and
  \<^verbatim>\<open>\b\d{9,18}\b\<close>.
\<close>

definition person_name :: regex where
  "person_name = seqs [Bnd, upper_az, Plus lower_az, Lit CHR '' '', upper_az, Plus lower_az, Bnd]"

definition address :: regex where
  "address = seqs [Bnd, Between 1 5 digit, space,
     Plus (Sym [AZ, az, r09, Spaces]),
     alts [Lits ''Street'', Lits ''St'', Lits ''Ave'', Lits ''Avenue'', Lits ''Blvd'',
           Lits ''Road'', Lits ''Rd'', Lits ''Lane'', Lits ''Ln''],
     Bnd]"

definition bank_account :: regex where
  "bank_account = seqs [Bnd, Between 9 18 digit, Bnd]"

definition personal_info_patterns :: "(string \<times> regex) list" where
  "personal_info_patterns =
     [(''person_name'', person_name),
      (''address'', address),
      (''bank_account'', bank_account)]"

section \<open>Values, records and the environment\<close>

text \<open>
  An exception is an instance of \<open>Exception\<close>; \<open>message e\<close> is \<open>str(e)\<close>.
\<close>

datatype py_exception = PyException (message: string)

text \<open>
  A result record is a Python \<open>dict\<close> with string keys, kept in the order in which the
  dictionary display lists them. Its values are strings, booleans and lists of strings.
\<close>

datatype pyval = Str string | Bool bool | StrList "string list"

type_synonym pydict = "(string \<times> pyval) list"

definition keys :: "pydict \<Rightarrow> string list" where
  "keys d = map fst d"

type_synonym byte = "8 word"

text \<open>
  The attributes of \<open>ai_result.output\<close> that the analyzer asks for with \<open>getattr\<close>;
  \<open>None\<close> stands for an attribute that is absent (or, for the two strings, \<open>None\<close>).
  The confidence is a floating-point score; it is modelled as a real number and its
  rendering with two decimals is left to the environment.
\<close>

record magika_output =
  mime_type :: "string option"
  category :: "string option"
  confidence :: "real option"

text \<open>
  Everything outside the module that a call of the analyzer consults. Each library call is
  taken to return, with a value or with an exception:
  \<^item> \<open>magika_identify\<close>: \<open>Magika().identify_path(file_path).output\<close>;
  \<^item> \<open>guess_type\<close>: \<open>mimetypes.guess_type(file_path)[0]\<close>;
  \<^item> \<open>open_rb\<close>: the bytes of the file as \<open>open(file_path, "rb")\<close> gives access to
    them, or the exception that opening or reading raises;
  \<^item> \<open>chardet_detect\<close>: \<open>chardet.detect(raw).get("encoding")\<close>;
  \<^item> \<open>decode\<close>: \<open>raw.decode(enc, errors="ignore")\<close>;
  \<^item> \<open>detect_langs\<close>: the language codes of \<open>detect_langs(text)\<close>, best first;
  \<^item> \<open>display_name\<close>: \<open>Language.get(code).display_name()\<close>;
  \<^item> \<open>getsize\<close>: \<open>os.path.getsize(file_path)\<close>;
  \<^item> \<open>format_2f\<close>: the rendering \<open>f"{x:.2f}"\<close> of a float;
  \<^item> \<open>set_slot\<close>: the position that the hash of a string gives it in the iteration
    order of a \<open>set\<close>; it depends on the hash seed of the running process.
\<close>

record env =
  magika_identify :: "string \<Rightarrow> py_exception + magika_output"
  guess_type :: "string \<Rightarrow> string option"
  open_rb :: "string \<Rightarrow> py_exception + byte list"
  chardet_detect :: "byte list \<Rightarrow> py_exception + string option"
  decode :: "byte list \<Rightarrow> string \<Rightarrow> py_exception + string"
  detect_langs :: "string \<Rightarrow> py_exception + string list"
  display_name :: "string \<Rightarrow> py_exception + string"
  getsize :: "string \<Rightarrow> py_exception + nat"
  format_2f :: "real \<Rightarrow> string"
  set_slot :: "string \<Rightarrow> nat"

text \<open>The library calls that a run of the analyzer makes, in order.\<close>

datatype call =
    IdentifyPath string
  | GuessType string
  | SafeRead string
  | DetectLanguage string
  | FindPii string
  | ContextSearch string
  | GetSize string

section \<open>Helper functions\<close>

text \<open>\<open>x or alternative\<close> for an optional string: \<open>None\<close> and the empty string are false.\<close>

definition falsy :: "string option \<Rightarrow> bool" where
  "falsy x = (case x of None \<Rightarrow> True | Some s \<Rightarrow> s = [])"

definition or_else :: "string option \<Rightarrow> string \<Rightarrow> string" where
  "or_else x alternative =
     (case x of None \<Rightarrow> alternative | Some s \<Rightarrow> if s = [] then alternative else s)"

definition detect_language :: "env \<Rightarrow> string \<Rightarrow> string" where
  "detect_language env text =
     (case detect_langs env text of
        Inl _ \<Rightarrow> ''Unknown''
      | Inr langs \<Rightarrow>
          (case langs of
             [] \<Rightarrow> ''Unknown''
           | lang # _ \<Rightarrow>
               (case display_name env lang of
                  Inl _ \<Rightarrow> ''Unknown''
                | Inr name \<Rightarrow> name @ '' ('' @ lang @ '')'')))"

text \<open>\<open>f.read(n)\<close> on a file just opened: the whole content when \<open>n\<close> is negative.\<close>

definition file_read :: "byte list \<Rightarrow> int \<Rightarrow> byte list" where
  "file_read content n = (if n < 0 then content else take (nat n) content)"

text \<open>The value of \<open>raw\<close> in \<open>safe_read\<close>, or the exception of the \<open>with\<close> block.\<close>

definition read_raw :: "env \<Rightarrow> string \<Rightarrow> int \<Rightarrow> py_exception + byte list" where
  "read_raw env file_path max_bytes =
     (case open_rb env file_path of
        Inl e \<Rightarrow> Inl e
      | Inr content \<Rightarrow> Inr (file_read content max_bytes))"

definition unreadable :: "string \<times> string" where
  "unreadable = (''[Unreadable or binary data]'', ''Unknown'')"

definition safe_read :: "env \<Rightarrow> string \<Rightarrow> int \<Rightarrow> string \<times> string" where
  "safe_read env file_path max_bytes =
     (case read_raw env file_path max_bytes of
        Inl _ \<Rightarrow> unreadable
      | Inr raw \<Rightarrow>
          (case chardet_detect env raw of
             Inl _ \<Rightarrow> unreadable
           | Inr detected \<Rightarrow>
               (let enc = or_else detected ''utf-8''
                in case decode env raw enc of
                     Inl _ \<Rightarrow> unreadable
                   | Inr text \<Rightarrow> (text, enc))))"

text \<open>The default of the parameter \<open>max_bytes\<close>.\<close>

definition default_max_bytes :: int where
  "default_max_bytes = 20000"

text \<open>
  \<open>list(set(xs))\<close>: the distinct elements of \<open>xs\<close>, in the iteration order of the set.
\<close>

definition list_of_set :: "env \<Rightarrow> string list \<Rightarrow> string list" where
  "list_of_set env xs = sort_key (set_slot env) (remdups xs)"

section \<open>File analyzer\<close>

text \<open>The values of \<open>mime\<close>, \<open>category\<close> and \<open>confidence\<close> that the \<open>try\<close> block binds.\<close>

definition classified_mime :: "env \<Rightarrow> magika_output \<Rightarrow> string \<Rightarrow> string" where
  "classified_mime env output file_path =
     or_else (mime_type output) (or_else (guess_type env file_path) ''application/octet-stream'')"

definition classified_category :: "magika_output \<Rightarrow> string" where
  "classified_category output = or_else (category output) ''Unknown''"

definition classified_confidence :: "magika_output \<Rightarrow> real" where
  "classified_confidence output =
     (case confidence output of None \<Rightarrow> 0.99 | Some c \<Rightarrow> c) * 100"

text \<open>The test of the \<open>if\<close> that guards reading and scanning.\<close>

definition text_eligible :: "string \<Rightarrow> string \<Rightarrow> bool" where
  "text_eligible mime ext =
     (mime \<in> set [''application/pdf'', ''text/plain''] \<or> ext \<in> set [''.pdf'', ''.txt''])"

text \<open>
  The matches of the body of that \<open>if\<close>: those of \<open>find_pii\<close>, then the labels of the
  contextual patterns found in the preview.
\<close>

definition pii_matches :: "string \<Rightarrow> string list" where
  "pii_matches preview =
     find_pii preview
     @ map fst (filter (\<lambda>(label, pattern). re_search pattern preview) personal_info_patterns)"

text \<open>
  \<open>analyze_single_file\<close>. The first component is the dictionary returned or the exception
  raised; the second lists the calls made. \<open>timestamp\<close> is the formatted value of
  \<open>datetime.now()\<close> at the start of the call.
\<close>

definition analyze_single_file ::
  "env \<Rightarrow> string \<Rightarrow> string \<Rightarrow> (py_exception + pydict) \<times> call list" where
  "analyze_single_file env timestamp file_path =
     (case magika_identify env file_path of
        Inl e \<Rightarrow>
          (Inr [(''file_name'', Str (basename file_path)),
                (''mime_type'', Str ''error''),
                (''ai_category'', Str ''Processing Failed''),
                (''confidence'', Str ''0%''),
                (''encoding'', Str ''N/A''),
                (''language'', Str ''Unknown''),
                (''flagged'', Bool False),
                (''flag_reasons'', StrList [''Magika error: '' @ message e]),
                (''preview'', Str ''[Error analyzing file]''),
                (''uploaded'', Str timestamp)],
           [IdentifyPath file_path])
      | Inr output \<Rightarrow>
          (let mime = classified_mime env output file_path;
               ai_category = classified_category output;
               percent = classified_confidence output;
               classify_calls =
                 IdentifyPath file_path
                 # (if falsy (mime_type output) then [GuessType file_path] else []);
               ext = lower (splitext_ext file_path);
               (flagged, flag_reasons, encoding, language, preview, scan_calls) =
                 (if text_eligible mime ext
                  then (let (preview, encoding) = safe_read env file_path default_max_bytes;
                            language = detect_language env preview;
                            matches = pii_matches preview
                        in (matches \<noteq> [],
                            if matches \<noteq> [] then list_of_set env matches else [],
                            encoding, language, preview,
                            [SafeRead file_path, DetectLanguage preview, FindPii preview,
                             ContextSearch preview]))
                  else (False, [], ''N/A'', ''N/A'', ''[Skipped: non-text or non-pdf file]'', []));
               calls = classify_calls @ scan_calls @ [GetSize file_path]
           in case getsize env file_path of
                Inl e \<Rightarrow> (Inl e, calls)
              | Inr nbytes \<Rightarrow>
                  (Inr [(''file_name'', Str (basename file_path)),
                        (''mime_type'', Str mime),
                        (''ai_category'', Str ai_category),
                        (''file_type'', Str (or_else (Some (lstrip_chars ''.'' ext)) ''unknown'')),
                        (''encoding'', Str encoding),
                        (''language'', Str language),
                        (''file_size'', Str (str_nat nbytes @ '' bytes'')),
                        (''confidence'', Str (format_2f env percent @ ''%'')),
                        (''uploaded'', Str timestamp),
                        (''preview'', Str (strip (slice_to 5000 preview))),
                        (''flagged'', Bool flagged),
                        (''flag_reasons'', StrList flag_reasons)],
                   calls)))"

section \<open>Batch processor\<close>

text \<open>
  A run of the process pool. Futures are numbered in the order of submission.
  \<^item> \<open>worker_env i\<close>: the environment in which the worker runs task \<open>i\<close>;
  \<^item> \<open>started i\<close>: the formatted time at which task \<open>i\<close> starts;
  \<^item> \<open>pool_error i\<close>: an exception that \<open>future.result()\<close> raises for task \<open>i\<close> although
    the analyzer itself did not raise (the worker died, the result could not be sent back);
  \<^item> \<open>completed i\<close>: the instant at which future \<open>i\<close> completes;
  \<^item> \<open>collected i\<close>: the formatted time at which the result of future \<open>i\<close> is collected.
\<close>

record pool =
  worker_env :: "nat \<Rightarrow> env"
  started :: "nat \<Rightarrow> string"
  pool_error :: "nat \<Rightarrow> py_exception option"
  completed :: "nat \<Rightarrow> nat"
  collected :: "nat \<Rightarrow> string"

text \<open>\<open>future.result()\<close> for the future of task \<open>i\<close> on \<open>path\<close>.\<close>

definition future_result :: "pool \<Rightarrow> nat \<Rightarrow> string \<Rightarrow> py_exception + pydict" where
  "future_result pool i path =
     (case pool_error pool i of
        Some e \<Rightarrow> Inl e
      | None \<Rightarrow> fst (analyze_single_file (worker_env pool i) (started pool i) path))"

text \<open>\<open>as_completed\<close>: every future once, in the order of completion.\<close>

definition as_completed :: "pool \<Rightarrow> (nat \<times> string) list \<Rightarrow> (nat \<times> string) list" where
  "as_completed pool future_to_path = sort_key (\<lambda>(i, path). completed pool i) future_to_path"

text \<open>The body of the loop: the record appended for one future.\<close>

definition collect :: "pool \<Rightarrow> nat \<times> string \<Rightarrow> pydict" where
  "collect pool future =
     (case future of (i, path) \<Rightarrow>
        (case future_result pool i path of
           Inr result \<Rightarrow> result
         | Inl e \<Rightarrow>
             [(''file_name'', Str (basename path)),
              (''mime_type'', Str ''error''),
              (''ai_category'', Str ''Processing Failed''),
              (''confidence'', Str ''0%''),
              (''encoding'', Str ''N/A''),
              (''language'', Str ''Unknown''),
              (''flagged'', Bool False),
              (''flag_reasons'', StrList [''Worker error: '' @ message e]),
              (''preview'', Str ''[Error analyzing file]''),
              (''uploaded'', Str (collected pool i))]))"

definition classify_files_batch :: "pool \<Rightarrow> string list \<Rightarrow> pydict list" where
  "classify_files_batch pool file_paths =
     (let future_to_path = zip [0..<length file_paths] file_paths
      in map (collect pool) (as_completed pool future_to_path))"

section \<open>Properties of runs and records\<close>

text \<open>The calls that read or scan the content of the file.\<close>

fun scanning :: "call \<Rightarrow> bool" where
  "scanning (SafeRead _) = True"
| "scanning (DetectLanguage _) = True"
| "scanning (FindPii _) = True"
| "scanning (ContextSearch _) = True"
| "scanning _ = False"

text \<open>A string with no white space at either end.\<close>

definition trimmed :: "string \<Rightarrow> bool" where
  "trimmed s = (case s of [] \<Rightarrow> True | c # _ \<Rightarrow> \<not> isspace c \<and> \<not> isspace (last s))"

text \<open>The value of a field of the dictionary that a run returns, if it returns one.\<close>

definition returned_field ::
  "(py_exception + pydict) \<times> call list \<Rightarrow> string \<Rightarrow> pyval option" where
  "returned_field outcome key = (case fst outcome of Inl _ \<Rightarrow> None | Inr r \<Rightarrow> map_of r key)"

section \<open>Sample environments\<close>

text \<open>
  A small upload directory used to exercise the statements below: one PNG image, text
  files that hold the seven bytes of \<open>pwd dni\<close>, a file \<open>down.bin\<close> on which the
  classifier raises, and a text file \<open>gone.txt\<close> that no longer exists when it is read.
\<close>

definition sample_bytes :: "byte list" where
  "sample_bytes = [0x70, 0x77, 0x64, 0x20, 0x64, 0x6E, 0x69]"

definition sample_identify :: "string \<Rightarrow> py_exception + magika_output" where
  "sample_identify path =
     (if path = ''uploads/down.bin'' then Inl (PyException ''model not loaded'')
      else if path = ''uploads/logo.png''
      then Inr \<lparr>mime_type = Some ''image/png'', category = None, confidence = None\<rparr>
      else Inr \<lparr>mime_type = Some ''text/plain'', category = None, confidence = None\<rparr>)"

definition sample_env :: env where
  "sample_env =
     \<lparr>magika_identify = sample_identify,
      guess_type = (\<lambda>path. None),
      open_rb = (\<lambda>path. if path = ''uploads/gone.txt''
                          then Inl (PyException ''No such file or directory'')
                          else Inr sample_bytes),
      chardet_detect = (\<lambda>raw. Inr (Some ''ascii'')),
      decode = (\<lambda>raw enc. Inr (map (\<lambda>b. char_of (unat b)) raw)),
      detect_langs = (\<lambda>t. Inr [''es'']),
      display_name = (\<lambda>lang. Inr ''Spanish''),
      getsize = (\<lambda>path. if path = ''uploads/gone.txt''
                          then Inl (PyException ''No such file or directory'')
                          else Inr 7),
      format_2f = (\<lambda>x. ''99.00''),
      set_slot = length\<rparr>"

text \<open>The same environment in a process whose sets iterate in the opposite order.\<close>

definition sample_env_other_seed :: env where
  "sample_env_other_seed = sample_env\<lparr>set_slot := (\<lambda>s. 100 - length s)\<rparr>"

definition sample_paths :: "string list" where
  "sample_paths = [''uploads/logo.png'', ''uploads/gone.txt'', ''uploads/down.bin'']"

definition sample_pool :: pool where
  "sample_pool =
     \<lparr>worker_env = (\<lambda>i. sample_env),
      started = (\<lambda>i. ''2025-11-08 10:00:00''),
      pool_error = (\<lambda>i. None),
      completed = (\<lambda>i. 10 - i),
      collected = (\<lambda>i. ''2025-11-08 10:00:03'')\<rparr>"

text \<open>
  The records that the analyzer is expected to return for \<open>logo.png\<close> and for
  \<open>down.bin\<close> in the sample environment.
\<close>

definition logo_record :: "string \<Rightarrow> pydict" where
  "logo_record timestamp =
     [(''file_name'', Str ''logo.png''),
      (''mime_type'', Str ''image/png''),
      (''ai_category'', Str ''Unknown''),
      (''file_type'', Str ''png''),
      (''encoding'', Str ''N/A''),
      (''language'', Str ''N/A''),
      (''file_size'', Str ''7 bytes''),
      (''confidence'', Str ''99.00%''),
      (''uploaded'', Str timestamp),
      (''preview'', Str ''[Skipped: non-text or non-pdf file]''),
      (''flagged'', Bool False),
      (''flag_reasons'', StrList [])]"

definition down_record :: "string \<Rightarrow> pydict" where
  "down_record timestamp =
     [(''file_name'', Str ''down.bin''),
      (''mime_type'', Str ''error''),
      (''ai_category'', Str ''Processing Failed''),
      (''confidence'', Str ''0%''),
      (''encoding'', Str ''N/A''),
      (''language'', Str ''Unknown''),
      (''flagged'', Bool False),
      (''flag_reasons'', StrList [''Magika error: model not loaded'']),
      (''preview'', Str ''[Error analyzing file]''),
      (''uploaded'', Str timestamp)]"


text \<open>The sample directory after its files have been removed: no size can be obtained.\<close>

definition vanished_env :: env where
  "vanished_env =
     sample_env\<lparr>getsize := (\<lambda>path. Inl (PyException ''No such file or directory''))\<rparr>"

text \<open>
  A directory in which every text file holds the line
  \<open>My SSN is 123-45-6789 and email is a@b.com\<close>, in ASCII.
\<close>

definition ssn_line :: string where
  "ssn_line = ''My SSN is 123-45-6789 and email is a@b.com''"

definition ssn_env :: env where
  "ssn_env = sample_env\<lparr>open_rb := (\<lambda>path. Inr (map of_char ssn_line)),
                        getsize := (\<lambda>path. Inr 42)\<rparr>"

section \<open>The three shapes of a run of the analyzer\<close>

lemma analyze_classifier_failure:
  assumes "magika_identify env file_path = Inl e"
  shows "analyze_single_file env timestamp file_path =
     (Inr [(''file_name'', Str (basename file_path)),
           (''mime_type'', Str ''error''),
           (''ai_category'', Str ''Processing Failed''),
           (''confidence'', Str ''0%''),
           (''encoding'', Str ''N/A''),
           (''language'', Str ''Unknown''),
           (''flagged'', Bool False),
           (''flag_reasons'', StrList [''Magika error: '' @ message e]),
           (''preview'', Str ''[Error analyzing file]''),
           (''uploaded'', Str timestamp)],
      [IdentifyPath file_path])"
  using assms by (simp add: analyze_single_file_def)

lemma analyze_not_eligible:
  assumes "magika_identify env file_path = Inr output"
    and "\<not> text_eligible (classified_mime env output file_path) (lower (splitext_ext file_path))"
  shows "analyze_single_file env timestamp file_path =
     (case getsize env file_path of
        Inl e \<Rightarrow>
          (Inl e,
           IdentifyPath file_path
           # (if falsy (mime_type output) then [GuessType file_path] else [])
           @ [GetSize file_path])
      | Inr nbytes \<Rightarrow>
          (Inr [(''file_name'', Str (basename file_path)),
                (''mime_type'', Str (classified_mime env output file_path)),
                (''ai_category'', Str (classified_category output)),
                (''file_type'',
                 Str (or_else (Some (lstrip_chars ''.'' (lower (splitext_ext file_path)))) ''unknown'')),
                (''encoding'', Str ''N/A''),
                (''language'', Str ''N/A''),
                (''file_size'', Str (str_nat nbytes @ '' bytes'')),
                (''confidence'', Str (format_2f env (classified_confidence output) @ ''%'')),
                (''uploaded'', Str timestamp),
                (''preview'', Str (strip (slice_to 5000 ''[Skipped: non-text or non-pdf file]''))),
                (''flagged'', Bool False),
                (''flag_reasons'', StrList [])],
           IdentifyPath file_path
           # (if falsy (mime_type output) then [GuessType file_path] else [])
           @ [GetSize file_path]))"
  using assms by (simp add: analyze_single_file_def Let_def split: sum.splits)

lemma analyze_eligible:
  assumes "magika_identify env file_path = Inr output"
    and "text_eligible (classified_mime env output file_path) (lower (splitext_ext file_path))"
    and "safe_read env file_path default_max_bytes = (text, enc)"
  shows "analyze_single_file env timestamp file_path =
     (case getsize env file_path of
        Inl e \<Rightarrow>
          (Inl e,
           IdentifyPath file_path
           # (if falsy (mime_type output) then [GuessType file_path] else [])
           @ [SafeRead file_path, DetectLanguage text, FindPii text, ContextSearch text,
              GetSize file_path])
      | Inr nbytes \<Rightarrow>
          (Inr [(''file_name'', Str (basename file_path)),
                (''mime_type'', Str (classified_mime env output file_path)),
                (''ai_category'', Str (classified_category output)),
                (''file_type'',
                 Str (or_else (Some (lstrip_chars ''.'' (lower (splitext_ext file_path)))) ''unknown'')),
                (''encoding'', Str enc),
                (''language'', Str (detect_language env text)),
                (''file_size'', Str (str_nat nbytes @ '' bytes'')),
                (''confidence'', Str (format_2f env (classified_confidence output) @ ''%'')),
                (''uploaded'', Str timestamp),
                (''preview'', Str (strip (slice_to 5000 text))),
                (''flagged'', Bool (pii_matches text \<noteq> [])),
                (''flag_reasons'',
                 StrList (if pii_matches text \<noteq> [] then list_of_set env (pii_matches text) else []))],
           IdentifyPath file_path
           # (if falsy (mime_type output) then [GuessType file_path] else [])
           @ [SafeRead file_path, DetectLanguage text, FindPii text, ContextSearch text,
              GetSize file_path]))"
  using assms by (simp add: analyze_single_file_def Let_def split: sum.splits)

lemma analyze_file_name:
  assumes "fst (analyze_single_file env timestamp file_path) = Inr r"
  shows "map_of r ''file_name'' = Some (Str (basename file_path))"
proof (cases "magika_identify env file_path")
  case (Inl e)
  from assms show ?thesis
    by (auto simp: analyze_classifier_failure [OF Inl])
next
  case (Inr out)
  obtain decoded enc where sr: "safe_read env file_path default_max_bytes = (decoded, enc)"
    by (cases "safe_read env file_path default_max_bytes")
  show ?thesis
  proof (cases "text_eligible (classified_mime env out file_path) (lower (splitext_ext file_path))")
    case True
    from assms show ?thesis
      by (auto simp: analyze_eligible [OF Inr True sr] split: sum.splits)
  next
    case False
    from assms show ?thesis
      by (auto simp: analyze_not_eligible [OF Inr False] split: sum.splits)
  qed
qed

lemma collect_file_name:
  "map_of (collect pool (i, path)) ''file_name'' = Some (Str (basename path))"
proof (cases "future_result pool i path")
  case (Inl e)
  then show ?thesis by (simp add: collect_def)
next
  case (Inr r)
  then have "fst (analyze_single_file (worker_env pool i) (started pool i) path) = Inr r"
    by (simp add: future_result_def split: option.splits)
  then have "map_of r ''file_name'' = Some (Str (basename path))"
    by (rule analyze_file_name)
  with Inr show ?thesis by (simp add: collect_def)
qed

lemma batch_length: "length (classify_files_batch pool file_paths) = length file_paths"
  by (simp add: classify_files_batch_def as_completed_def)

lemma batch_mset:
  "mset (classify_files_batch pool file_paths) =
   image_mset (collect pool) (mset (zip [0..<length file_paths] file_paths))"
  by (simp add: classify_files_batch_def as_completed_def)

lemma batch_set:
  "set (classify_files_batch pool file_paths) =
   collect pool ` set (zip [0..<length file_paths] file_paths)"
  by (simp add: classify_files_batch_def as_completed_def)

lemma future_in_zip:
  assumes "i < length file_paths"
  shows "(i, file_paths ! i) \<in> set (zip [0..<length file_paths] file_paths)"
  using assms by (auto simp: set_zip intro!: exI [of _ i])


subsection \<open>The sample upload directory\<close>

lemma ext_logo: "lower (splitext_ext ''uploads/logo.png'') = ''.png''"
  by code_simp


lemma basename_logo: "basename ''uploads/logo.png'' = ''logo.png''"
  by code_simp

lemma basename_gone: "basename ''uploads/gone.txt'' = ''gone.txt''"
  by code_simp

lemma basename_down: "basename ''uploads/down.bin'' = ''down.bin''"
  by code_simp

lemma sample_identify_logo:
  "magika_identify sample_env ''uploads/logo.png''
   = Inr \<lparr>mime_type = Some ''image/png'', category = None, confidence = None\<rparr>"
  by (simp add: sample_env_def sample_identify_def)

lemma sample_identify_gone:
  "magika_identify sample_env ''uploads/gone.txt''
   = Inr \<lparr>mime_type = Some ''text/plain'', category = None, confidence = None\<rparr>"
  by (simp add: sample_env_def sample_identify_def)

lemma sample_identify_down:
  "magika_identify sample_env ''uploads/down.bin'' = Inl (PyException ''model not loaded'')"
  by (simp add: sample_env_def sample_identify_def)

lemma sample_getsize_gone:
  "getsize sample_env ''uploads/gone.txt'' = Inl (PyException ''No such file or directory'')"
  by (simp add: sample_env_def)

lemma sample_getsize_logo: "getsize sample_env ''uploads/logo.png'' = Inr 7"
  by (simp add: sample_env_def)


lemma sample_logo_not_eligible:
  "\<not> text_eligible
       (classified_mime sample_env
          \<lparr>mime_type = Some ''image/png'', category = None, confidence = None\<rparr>
          ''uploads/logo.png'')
       (lower (splitext_ext ''uploads/logo.png''))"
  by (simp add: text_eligible_def classified_mime_def or_else_def ext_logo)

lemma sample_gone_eligible:
  "text_eligible
     (classified_mime sample_env
        \<lparr>mime_type = Some ''text/plain'', category = None, confidence = None\<rparr>
        ''uploads/gone.txt'')
     (lower (splitext_ext ''uploads/gone.txt''))"
  by (simp add: text_eligible_def classified_mime_def or_else_def)

lemma sample_gone_raises:
  "fst (analyze_single_file sample_env timestamp ''uploads/gone.txt'')
   = Inl (PyException ''No such file or directory'')"
proof -
  obtain decoded enc
    where "safe_read sample_env ''uploads/gone.txt'' default_max_bytes = (decoded, enc)"
    by (cases "safe_read sample_env ''uploads/gone.txt'' default_max_bytes")
  from analyze_eligible [OF sample_identify_gone sample_gone_eligible this]
  show ?thesis by (simp add: sample_getsize_gone)
qed

lemma sample_logo_record:
  "fst (analyze_single_file sample_env timestamp ''uploads/logo.png'')
   = Inr (logo_record timestamp)"
proof -
  have "str_nat 7 = ''7''"
    by code_simp
  moreover have "strip (slice_to 5000 ''[Skipped: non-text or non-pdf file]'')
      = ''[Skipped: non-text or non-pdf file]''"
    by code_simp
  moreover have "lstrip_chars ''.'' ''.png'' = ''png''"
    by code_simp
  moreover have "format_2f sample_env x = ''99.00''" for x
    by (simp add: sample_env_def)
  ultimately show ?thesis
    using analyze_not_eligible [OF sample_identify_logo sample_logo_not_eligible, of timestamp]
    by (simp add: sample_getsize_logo basename_logo classified_mime_def classified_category_def
          or_else_def ext_logo logo_record_def)
qed

lemma sample_down_record:
  "fst (analyze_single_file sample_env timestamp ''uploads/down.bin'')
   = Inr (down_record timestamp)"
  by (simp add: analyze_classifier_failure [OF sample_identify_down] basename_down down_record_def)

lemma sample_notes_identify:
  "magika_identify sample_env ''uploads/notes.txt''
   = Inr \<lparr>mime_type = Some ''text/plain'', category = None, confidence = None\<rparr>"
  by (simp add: sample_env_def sample_identify_def)

lemma sample_notes_eligible:
  "text_eligible
     (classified_mime sample_env
        \<lparr>mime_type = Some ''text/plain'', category = None, confidence = None\<rparr>
        ''uploads/notes.txt'')
     (lower (splitext_ext ''uploads/notes.txt''))"
  by (simp add: text_eligible_def classified_mime_def or_else_def)

lemma sample_bytes_decoded: "map (\<lambda>b. char_of (unat b)) sample_bytes = ''pwd dni''"
  unfolding sample_bytes_def by code_simp

lemma sample_notes_read:
  "safe_read sample_env ''uploads/notes.txt'' default_max_bytes = (''pwd dni'', ''ascii'')"
proof -
  have "file_read sample_bytes default_max_bytes = sample_bytes"
    by (simp add: file_read_def default_max_bytes_def sample_bytes_def)
  then show ?thesis
    by (simp add: safe_read_def read_raw_def sample_env_def or_else_def sample_bytes_decoded)
qed

lemma sample_notes_matches:
  "pii_matches ''pwd dni'' = [''password_label'', ''spanish_ssn_label'']"
  by code_simp

lemma sample_notes_order:
  "list_of_set sample_env [''password_label'', ''spanish_ssn_label'']
   = [''password_label'', ''spanish_ssn_label'']"
  by (simp add: list_of_set_def sample_env_def)

section \<open>Strings, sets and reads\<close>

lemma strip_length: "length (strip s) \<le> length s"
proof -
  have "length (dropWhile isspace (rev (dropWhile isspace s))) \<le> length (rev (dropWhile isspace s))"
    by (rule length_dropWhile_le)
  also have "\<dots> \<le> length s"
    by (simp add: length_dropWhile_le)
  finally show ?thesis
    by (simp add: strip_def rstrip_space_def lstrip_space_def)
qed

lemma strip_trimmed: "trimmed (strip s)"
proof (cases "strip s")
  case Nil
  then show ?thesis by (simp add: trimmed_def)
next
  case (Cons c cs)
  define t where "t = dropWhile isspace s"
  define u where "u = dropWhile isspace (rev t)"
  have su: "strip s = rev u"
    by (simp add: strip_def rstrip_space_def lstrip_space_def t_def u_def)
  with Cons have u_ne: "u \<noteq> []" by auto
  then have hd_u: "\<not> isspace (hd u)"
    unfolding u_def by (rule hd_dropWhile)
  have last_strip: "last (strip s) = hd u"
    using u_ne by (simp add: su last_rev)
  have "rev t = takeWhile isspace (rev t) @ u"
    by (simp add: u_def)
  then have "t = rev u @ rev (takeWhile isspace (rev t))"
    by (metis rev_append rev_rev_ident)
  with u_ne have "hd t = hd (rev u)" and "t \<noteq> []"
    by (metis hd_append2 rev_is_Nil_conv, metis append_is_Nil_conv rev_is_Nil_conv)
  moreover from \<open>t \<noteq> []\<close> have "\<not> isspace (hd t)"
    unfolding t_def by (rule hd_dropWhile)
  ultimately have "\<not> isspace (hd (strip s))"
    by (simp add: su)
  with Cons last_strip hd_u show ?thesis
    by (simp add: trimmed_def)
qed

lemma preview_length: "length (strip (slice_to 5000 s)) \<le> 5000"
proof -
  have "length (strip (slice_to 5000 s)) \<le> length (slice_to 5000 s)"
    by (rule strip_length)
  also have "\<dots> \<le> 5000"
    by (simp add: slice_to_def)
  finally show ?thesis .
qed

lemma skip_sentinel_kept:
  "strip (slice_to 5000 ''[Skipped: non-text or non-pdf file]'')
   = ''[Skipped: non-text or non-pdf file]''"
  by code_simp


lemma list_of_set_mset: "mset (list_of_set env xs) = mset (remdups xs)"
  by (simp add: list_of_set_def)

lemma list_of_set_empty: "list_of_set env xs = [] \<longleftrightarrow> xs = []"
proof -
  have "list_of_set env xs = [] \<longleftrightarrow> mset (list_of_set env xs) = {#}"
    by simp
  also have "\<dots> \<longleftrightarrow> xs = []"
    by (simp add: list_of_set_mset)
  finally show ?thesis .
qed


lemma decode_byte: "char_of (unat (of_char c :: byte)) = c"
proof -
  have "(of_char c :: byte) = of_nat (of_char c)"
    by (rule of_nat_of_char [symmetric])
  then have "unat (of_char c :: byte) = (of_char c :: nat) mod 256"
    by (simp only: unat_of_nat) simp
  then show ?thesis by simp
qed

lemma decode_bytes: "map ((\<lambda>b :: byte. char_of (unat b)) \<circ> of_char) s = s"
  by (induction s) (simp_all add: decode_byte)

lemma ssn_env_read:
  "safe_read ssn_env path default_max_bytes = (ssn_line, ''ascii'')"
proof -
  have "length (map of_char ssn_line :: byte list) \<le> 20000"
    by (simp add: ssn_line_def)
  then have "file_read (map of_char ssn_line) default_max_bytes = (map of_char ssn_line :: byte list)"
    by (simp add: file_read_def default_max_bytes_def)
  then show ?thesis
    by (simp add: safe_read_def read_raw_def ssn_env_def sample_env_def or_else_def decode_bytes)
qed

lemma ssn_found: "re_search ssn_us ssn_line"
  unfolding ssn_line_def by code_simp

lemma email_found: "re_search email ssn_line"
  unfolding ssn_line_def by code_simp

lemma ssn_line_has_ssn: "''ssn_us'' \<in> set (pii_matches ssn_line)"
  using ssn_found by (simp add: pii_matches_def find_pii_def PII_PATTERNS_def)

lemma ssn_line_has_email: "''email'' \<in> set (pii_matches ssn_line)"
  using email_found by (simp add: pii_matches_def find_pii_def PII_PATTERNS_def)

section \<open>Cardinality of a batch\<close>

text \<open>
  C1. For every list of paths, \<open>classify_files_batch\<close> returns a list of the same length,
  whatever the outcome of each task; and the names of the files in the records are, one
  for one, the base names of the paths submitted.
\<close>

theorem batch_one_result_per_path:
  "length (classify_files_batch pool file_paths) = length file_paths
   \<and> mset (map (\<lambda>r. map_of r ''file_name'') (classify_files_batch pool file_paths))
     = mset (map (\<lambda>path. Some (Str (basename path))) file_paths)"
proof
  show "length (classify_files_batch pool file_paths) = length file_paths"
    by (rule batch_length)
next
  let ?futures = "zip [0..<length file_paths] file_paths"
  let ?name = "\<lambda>path. Some (Str (basename path))"
  have "mset (map (\<lambda>r. map_of r ''file_name'') (classify_files_batch pool file_paths))
        = mset (map (\<lambda>future. map_of (collect pool future) ''file_name'') ?futures)"
    by (simp add: classify_files_batch_def as_completed_def comp_def
          flip: mset_map [of _ "sort_key _ _"])
  also have "map (\<lambda>future. map_of (collect pool future) ''file_name'') ?futures
        = map (\<lambda>future. ?name (snd future)) ?futures"
    by (rule map_cong) (auto simp: collect_file_name)
  also have "\<dots> = map ?name (map snd ?futures)"
    by (simp only: map_map comp_def)
  also have "map snd ?futures = file_paths"
    by simp
  finally show "mset (map (\<lambda>r. map_of r ''file_name'') (classify_files_batch pool file_paths))
     = mset (map ?name file_paths)" .
qed

section \<open>Failures\<close>

text \<open>
  C3. When the classifier raises for a path, \<open>analyze_single_file\<close> raises nothing: it
  returns a record whose \<open>mime_type\<close> is \<open>error\<close>, whose \<open>ai_category\<close> is
  \<open>Processing Failed\<close> and whose \<open>confidence\<close> is \<open>0%\<close>; and the call of the
  classifier is the only call it has made, so the file is not read, its language is not
  detected and it is not scanned.
\<close>

theorem classifier_failure_short_circuits:
  assumes "magika_identify env file_path = Inl e"
  shows "(\<exists>r. fst (analyze_single_file env timestamp file_path) = Inr r
            \<and> map_of r ''mime_type'' = Some (Str ''error'')
            \<and> map_of r ''ai_category'' = Some (Str ''Processing Failed'')
            \<and> map_of r ''confidence'' = Some (Str ''0%''))
         \<and> snd (analyze_single_file env timestamp file_path) = [IdentifyPath file_path]
         \<and> filter scanning (snd (analyze_single_file env timestamp file_path)) = []"
  by (simp add: analyze_classifier_failure [OF assms])

theorem classifier_failure_short_circuits_witness:
  "magika_identify sample_env ''uploads/down.bin'' = Inl (PyException ''model not loaded'')
   \<and> (\<exists>r. fst (analyze_single_file sample_env ''2025-11-08 10:00:00'' ''uploads/down.bin'') = Inr r
          \<and> map_of r ''mime_type'' = Some (Str ''error'')
          \<and> map_of r ''ai_category'' = Some (Str ''Processing Failed'')
          \<and> map_of r ''confidence'' = Some (Str ''0%''))
   \<and> snd (analyze_single_file sample_env ''2025-11-08 10:00:00'' ''uploads/down.bin'')
       = [IdentifyPath ''uploads/down.bin'']"
  using classifier_failure_short_circuits [OF sample_identify_down, of "''2025-11-08 10:00:00''"]
  by (simp add: sample_identify_down)

text \<open>
  C5. When the task of a submitted path raises, the batch holds for that path the record
  built in the handler, whose only entry in \<open>flag_reasons\<close> is \<open>Worker error: \<close>
  followed by the message of the exception; the record that any other task returns is in
  the batch as well, and the batch has one record for each path.
\<close>

theorem worker_failure_isolated:
  assumes "i < length file_paths"
    and "future_result pool i (file_paths ! i) = Inl e"
  shows "collect pool (i, file_paths ! i) \<in> set (classify_files_batch pool file_paths)
         \<and> map_of (collect pool (i, file_paths ! i)) ''file_name''
             = Some (Str (basename (file_paths ! i)))
         \<and> map_of (collect pool (i, file_paths ! i)) ''flag_reasons''
             = Some (StrList [''Worker error: '' @ message e])
         \<and> (j < length file_paths \<and> future_result pool j (file_paths ! j) = Inr r
               \<longrightarrow> r \<in> set (classify_files_batch pool file_paths))
         \<and> length (classify_files_batch pool file_paths) = length file_paths"
proof (intro conjI impI)
  show "collect pool (i, file_paths ! i) \<in> set (classify_files_batch pool file_paths)"
    using future_in_zip [OF assms(1)] by (simp add: batch_set)
  show "map_of (collect pool (i, file_paths ! i)) ''file_name''
        = Some (Str (basename (file_paths ! i)))"
    by (rule collect_file_name)
  show "map_of (collect pool (i, file_paths ! i)) ''flag_reasons''
        = Some (StrList [''Worker error: '' @ message e])"
    using assms(2) by (simp add: collect_def)
  show "length (classify_files_batch pool file_paths) = length file_paths"
    by (rule batch_length)
next
  assume "j < length file_paths \<and> future_result pool j (file_paths ! j) = Inr r"
  then have "(j, file_paths ! j) \<in> set (zip [0..<length file_paths] file_paths)"
    and "collect pool (j, file_paths ! j) = r"
    by (simp_all add: future_in_zip collect_def)
  then show "r \<in> set (classify_files_batch pool file_paths)"
    unfolding batch_set by blast
qed

lemma sample_future_gone:
  "future_result sample_pool 1 (sample_paths ! 1) = Inl (PyException ''No such file or directory'')"
  by (simp add: future_result_def sample_pool_def sample_paths_def sample_gone_raises)

lemma sample_future_logo:
  "future_result sample_pool 0 (sample_paths ! 0)
   = fst (analyze_single_file sample_env ''2025-11-08 10:00:00'' ''uploads/logo.png'')"
  by (simp add: future_result_def sample_pool_def sample_paths_def)

theorem worker_failure_isolated_witness:
  "1 < length sample_paths
   \<and> future_result sample_pool 1 (sample_paths ! 1)
       = Inl (PyException ''No such file or directory'')
   \<and> 0 < length sample_paths
   \<and> future_result sample_pool 0 (sample_paths ! 0) = Inr (logo_record ''2025-11-08 10:00:00'')
   \<and> map_of (collect sample_pool (1, sample_paths ! 1)) ''flag_reasons''
       = Some (StrList [''Worker error: No such file or directory''])
   \<and> collect sample_pool (1, sample_paths ! 1) \<in> set (classify_files_batch sample_pool sample_paths)
   \<and> logo_record ''2025-11-08 10:00:00'' \<in> set (classify_files_batch sample_pool sample_paths)
   \<and> length (classify_files_batch sample_pool sample_paths) = length sample_paths"
proof -
  have one: "1 < length sample_paths" and zero: "0 < length sample_paths"
    by (simp_all add: sample_paths_def)
  have logo: "future_result sample_pool 0 (sample_paths ! 0) = Inr (logo_record ''2025-11-08 10:00:00'')"
    by (simp only: sample_future_logo sample_logo_record)
  note facts = worker_failure_isolated [OF one sample_future_gone,
      of 0 "logo_record ''2025-11-08 10:00:00''"]
  from facts zero logo
  have "logo_record ''2025-11-08 10:00:00'' \<in> set (classify_files_batch sample_pool sample_paths)"
    by blast
  moreover from facts
  have "map_of (collect sample_pool (1, sample_paths ! 1)) ''flag_reasons''
        = Some (StrList [''Worker error: No such file or directory''])"
    by simp
  moreover from facts
  have "collect sample_pool (1, sample_paths ! 1) \<in> set (classify_files_batch sample_pool sample_paths)"
    and "length (classify_files_batch sample_pool sample_paths) = length sample_paths"
    by blast+
  ultimately show ?thesis
    using one zero logo sample_future_gone by blast
qed

section \<open>Text eligibility\<close>

text \<open>
  C4, as the code has it. When the classifier succeeds, the analyzer treats the file as
  text-eligible exactly when the classified MIME type is \<open>text/plain\<close> or
  \<open>application/pdf\<close>, or the lower-cased extension is \<open>.txt\<close> or \<open>.pdf\<close>: these are
  the files for which it makes the calls that read and scan. For a text-eligible file
  whose size can be obtained, the record is built from the text that \<open>safe_read\<close>
  returns: its preview, its encoding, its language, and the categories found in it. For
  any other file whose size can be obtained, no call reads or scans, and the record has
  the skip sentinel as preview, \<open>N/A\<close> as encoding and as language, \<open>flagged\<close> false and
  no reasons.
\<close>

theorem text_eligibility:
  assumes "magika_identify env file_path = Inr out"
  shows "(filter scanning (snd (analyze_single_file env timestamp file_path)) \<noteq> []
            \<longleftrightarrow> classified_mime env out file_path = ''text/plain''
                \<or> classified_mime env out file_path = ''application/pdf''
                \<or> lower (splitext_ext file_path) = ''.txt''
                \<or> lower (splitext_ext file_path) = ''.pdf'')
         \<and> (SafeRead file_path \<in> set (snd (analyze_single_file env timestamp file_path))
            \<longleftrightarrow> classified_mime env out file_path = ''text/plain''
                \<or> classified_mime env out file_path = ''application/pdf''
                \<or> lower (splitext_ext file_path) = ''.txt''
                \<or> lower (splitext_ext file_path) = ''.pdf'')
         \<and> ((classified_mime env out file_path = ''text/plain''
                \<or> classified_mime env out file_path = ''application/pdf''
                \<or> lower (splitext_ext file_path) = ''.txt''
                \<or> lower (splitext_ext file_path) = ''.pdf'')
              \<and> getsize env file_path = Inr nbytes
            \<longrightarrow> (\<exists>r reasons. fst (analyze_single_file env timestamp file_path) = Inr r
                   \<and> map_of r ''preview''
                       = Some (Str (strip (slice_to 5000
                            (fst (safe_read env file_path default_max_bytes)))))
                   \<and> map_of r ''encoding''
                       = Some (Str (snd (safe_read env file_path default_max_bytes)))
                   \<and> map_of r ''language''
                       = Some (Str (detect_language env
                            (fst (safe_read env file_path default_max_bytes))))
                   \<and> map_of r ''flagged''
                       = Some (Bool (pii_matches
                            (fst (safe_read env file_path default_max_bytes)) \<noteq> []))
                   \<and> map_of r ''flag_reasons'' = Some (StrList reasons)
                   \<and> set reasons
                       = set (pii_matches (fst (safe_read env file_path default_max_bytes)))))
         \<and> (\<not> (classified_mime env out file_path = ''text/plain''
                \<or> classified_mime env out file_path = ''application/pdf''
                \<or> lower (splitext_ext file_path) = ''.txt''
                \<or> lower (splitext_ext file_path) = ''.pdf'')
              \<and> getsize env file_path = Inr nbytes
            \<longrightarrow> (\<exists>r. fst (analyze_single_file env timestamp file_path) = Inr r
                   \<and> map_of r ''preview'' = Some (Str ''[Skipped: non-text or non-pdf file]'')
                   \<and> map_of r ''encoding'' = Some (Str ''N/A'')
                   \<and> map_of r ''language'' = Some (Str ''N/A'')
                   \<and> map_of r ''flagged'' = Some (Bool False)
                   \<and> map_of r ''flag_reasons'' = Some (StrList [])))"
proof -
  let ?eligible = "text_eligible (classified_mime env out file_path) (lower (splitext_ext file_path))"
  have eligible_iff: "?eligible \<longleftrightarrow>
      classified_mime env out file_path = ''text/plain''
      \<or> classified_mime env out file_path = ''application/pdf''
      \<or> lower (splitext_ext file_path) = ''.txt''
      \<or> lower (splitext_ext file_path) = ''.pdf''"
    by (auto simp: text_eligible_def)
  obtain decoded enc where sr: "safe_read env file_path default_max_bytes = (decoded, enc)"
    by (cases "safe_read env file_path default_max_bytes")
  show ?thesis
  proof (cases ?eligible)
    case True
    have "filter scanning (snd (analyze_single_file env timestamp file_path)) \<noteq> []"
      and "SafeRead file_path \<in> set (snd (analyze_single_file env timestamp file_path))"
      by (simp_all add: analyze_eligible [OF assms True sr] split: sum.splits)
    moreover have "getsize env file_path = Inr nbytes \<Longrightarrow>
        \<exists>r reasons. fst (analyze_single_file env timestamp file_path) = Inr r
           \<and> map_of r ''preview''
               = Some (Str (strip (slice_to 5000 (fst (safe_read env file_path default_max_bytes)))))
           \<and> map_of r ''encoding''
               = Some (Str (snd (safe_read env file_path default_max_bytes)))
           \<and> map_of r ''language''
               = Some (Str (detect_language env (fst (safe_read env file_path default_max_bytes))))
           \<and> map_of r ''flagged''
               = Some (Bool (pii_matches (fst (safe_read env file_path default_max_bytes)) \<noteq> []))
           \<and> map_of r ''flag_reasons'' = Some (StrList reasons)
           \<and> set reasons = set (pii_matches (fst (safe_read env file_path default_max_bytes)))"
    proof -
      have "set (if pii_matches decoded \<noteq> [] then list_of_set env (pii_matches decoded) else [])
          = set (pii_matches decoded)"
        by (cases "pii_matches decoded = []") (simp_all add: list_of_set_def)
      then show "getsize env file_path = Inr nbytes \<Longrightarrow>
        \<exists>r reasons. fst (analyze_single_file env timestamp file_path) = Inr r
           \<and> map_of r ''preview''
               = Some (Str (strip (slice_to 5000 (fst (safe_read env file_path default_max_bytes)))))
           \<and> map_of r ''encoding''
               = Some (Str (snd (safe_read env file_path default_max_bytes)))
           \<and> map_of r ''language''
               = Some (Str (detect_language env (fst (safe_read env file_path default_max_bytes))))
           \<and> map_of r ''flagged''
               = Some (Bool (pii_matches (fst (safe_read env file_path default_max_bytes)) \<noteq> []))
           \<and> map_of r ''flag_reasons'' = Some (StrList reasons)
           \<and> set reasons = set (pii_matches (fst (safe_read env file_path default_max_bytes)))"
        by (simp add: analyze_eligible [OF assms True sr] sr)
    qed
    ultimately show ?thesis
      using True unfolding eligible_iff by blast
  next
    case False
    have "filter scanning (snd (analyze_single_file env timestamp file_path)) = []"
      and "SafeRead file_path \<notin> set (snd (analyze_single_file env timestamp file_path))"
      by (simp_all add: analyze_not_eligible [OF assms False] split: sum.splits)
    moreover have "getsize env file_path = Inr nbytes \<Longrightarrow>
        \<exists>r. fst (analyze_single_file env timestamp file_path) = Inr r
           \<and> map_of r ''preview'' = Some (Str ''[Skipped: non-text or non-pdf file]'')
           \<and> map_of r ''encoding'' = Some (Str ''N/A'')
           \<and> map_of r ''language'' = Some (Str ''N/A'')
           \<and> map_of r ''flagged'' = Some (Bool False)
           \<and> map_of r ''flag_reasons'' = Some (StrList [])"
      by (simp add: analyze_not_eligible [OF assms False] skip_sentinel_kept)
    ultimately show ?thesis
      using False unfolding eligible_iff by blast
  qed
qed

lemma sample_notes_getsize: "getsize sample_env ''uploads/notes.txt'' = Inr 7"
  by (simp add: sample_env_def)

lemma sample_notes_mime:
  "classified_mime sample_env
     \<lparr>mime_type = Some ''text/plain'', category = None, confidence = None\<rparr>
     ''uploads/notes.txt'' = ''text/plain''"
  by (simp add: classified_mime_def or_else_def)

lemma sample_notes_language: "detect_language sample_env ''pwd dni'' = ''Spanish (es)''"
  by (simp add: detect_language_def sample_env_def)

lemma sample_notes_preview: "strip (slice_to 5000 ''pwd dni'') = ''pwd dni''"
  by code_simp

theorem text_eligibility_witness:
  "magika_identify sample_env ''uploads/logo.png''
     = Inr \<lparr>mime_type = Some ''image/png'', category = None, confidence = None\<rparr>
   \<and> classified_mime sample_env
         \<lparr>mime_type = Some ''image/png'', category = None, confidence = None\<rparr>
         ''uploads/logo.png'' = ''image/png''
   \<and> lower (splitext_ext ''uploads/logo.png'') = ''.png''
   \<and> getsize sample_env ''uploads/logo.png'' = Inr 7
   \<and> filter scanning (snd (analyze_single_file sample_env ''2025-11-08 10:00:00'' ''uploads/logo.png'')) = []
   \<and> (\<exists>r. fst (analyze_single_file sample_env ''2025-11-08 10:00:00'' ''uploads/logo.png'') = Inr r
          \<and> map_of r ''preview'' = Some (Str ''[Skipped: non-text or non-pdf file]'')
          \<and> map_of r ''encoding'' = Some (Str ''N/A'')
          \<and> map_of r ''language'' = Some (Str ''N/A'')
          \<and> map_of r ''flagged'' = Some (Bool False)
          \<and> map_of r ''flag_reasons'' = Some (StrList []))
   \<and> magika_identify sample_env ''uploads/notes.txt''
       = Inr \<lparr>mime_type = Some ''text/plain'', category = None, confidence = None\<rparr>
   \<and> classified_mime sample_env
         \<lparr>mime_type = Some ''text/plain'', category = None, confidence = None\<rparr>
         ''uploads/notes.txt'' = ''text/plain''
   \<and> getsize sample_env ''uploads/notes.txt'' = Inr 7
   \<and> SafeRead ''uploads/notes.txt''
       \<in> set (snd (analyze_single_file sample_env ''2025-11-08 10:00:00'' ''uploads/notes.txt''))
   \<and> (\<exists>r reasons.
          fst (analyze_single_file sample_env ''2025-11-08 10:00:00'' ''uploads/notes.txt'') = Inr r
          \<and> map_of r ''preview'' = Some (Str ''pwd dni'')
          \<and> map_of r ''encoding'' = Some (Str ''ascii'')
          \<and> map_of r ''language'' = Some (Str ''Spanish (es)'')
          \<and> map_of r ''flagged'' = Some (Bool True)
          \<and> map_of r ''flag_reasons'' = Some (StrList reasons)
          \<and> set reasons = {''password_label'', ''spanish_ssn_label''})"
proof -
  have mime: "classified_mime sample_env
         \<lparr>mime_type = Some ''image/png'', category = None, confidence = None\<rparr>
         ''uploads/logo.png'' = ''image/png''"
    by (simp add: classified_mime_def or_else_def)
  note png_facts = text_eligibility [OF sample_identify_logo, of "''2025-11-08 10:00:00''" 7]
  note txt_facts = text_eligibility [OF sample_notes_identify, of "''2025-11-08 10:00:00''" 7]
  have skipped: "filter scanning
        (snd (analyze_single_file sample_env ''2025-11-08 10:00:00'' ''uploads/logo.png'')) = []
      \<and> (\<exists>r. fst (analyze_single_file sample_env ''2025-11-08 10:00:00'' ''uploads/logo.png'') = Inr r
          \<and> map_of r ''preview'' = Some (Str ''[Skipped: non-text or non-pdf file]'')
          \<and> map_of r ''encoding'' = Some (Str ''N/A'')
          \<and> map_of r ''language'' = Some (Str ''N/A'')
          \<and> map_of r ''flagged'' = Some (Bool False)
          \<and> map_of r ''flag_reasons'' = Some (StrList []))"
    using png_facts by (simp add: mime ext_logo sample_getsize_logo)
  have scanned: "SafeRead ''uploads/notes.txt''
        \<in> set (snd (analyze_single_file sample_env ''2025-11-08 10:00:00'' ''uploads/notes.txt''))
      \<and> (\<exists>r reasons.
          fst (analyze_single_file sample_env ''2025-11-08 10:00:00'' ''uploads/notes.txt'') = Inr r
          \<and> map_of r ''preview'' = Some (Str ''pwd dni'')
          \<and> map_of r ''encoding'' = Some (Str ''ascii'')
          \<and> map_of r ''language'' = Some (Str ''Spanish (es)'')
          \<and> map_of r ''flagged'' = Some (Bool True)
          \<and> map_of r ''flag_reasons'' = Some (StrList reasons)
          \<and> set reasons = {''password_label'', ''spanish_ssn_label''})"
    using txt_facts
    by (simp add: sample_notes_mime sample_notes_getsize sample_notes_read sample_notes_matches
        sample_notes_language sample_notes_preview)
  from skipped scanned show ?thesis
    by (simp add: sample_identify_logo mime ext_logo sample_getsize_logo sample_notes_identify
        sample_notes_mime sample_notes_getsize)
qed

text \<open>
  Without the proviso on the size the statement fails: once the files have been removed,
  \<open>logo.png\<close> is still classified as an image and is not text-eligible, and
  \<open>os.path.getsize\<close> raises while the record is built, so that no record is returned.
\<close>

theorem text_eligibility_counterexample:
  "magika_identify vanished_env ''uploads/logo.png''
     = Inr \<lparr>mime_type = Some ''image/png'', category = None, confidence = None\<rparr>
   \<and> classified_mime vanished_env
         \<lparr>mime_type = Some ''image/png'', category = None, confidence = None\<rparr>
         ''uploads/logo.png'' = ''image/png''
   \<and> lower (splitext_ext ''uploads/logo.png'') = ''.png''
   \<and> fst (analyze_single_file vanished_env ''2025-11-08 10:00:00'' ''uploads/logo.png'')
       = Inl (PyException ''No such file or directory'')
   \<and> returned_field
         (analyze_single_file vanished_env ''2025-11-08 10:00:00'' ''uploads/logo.png'')
         ''preview'' = None"
proof -
  have id: "magika_identify vanished_env ''uploads/logo.png''
     = Inr \<lparr>mime_type = Some ''image/png'', category = None, confidence = None\<rparr>"
    by (simp add: vanished_env_def sample_identify_logo)
  have mime: "classified_mime vanished_env
         \<lparr>mime_type = Some ''image/png'', category = None, confidence = None\<rparr>
         ''uploads/logo.png'' = ''image/png''"
    by (simp add: classified_mime_def or_else_def)
  have el: "\<not> text_eligible
       (classified_mime vanished_env
          \<lparr>mime_type = Some ''image/png'', category = None, confidence = None\<rparr>
          ''uploads/logo.png'')
       (lower (splitext_ext ''uploads/logo.png''))"
    by (simp add: text_eligible_def mime ext_logo)
  have size: "getsize vanished_env ''uploads/logo.png''
      = Inl (PyException ''No such file or directory'')"
    by (simp add: vanished_env_def)
  have "fst (analyze_single_file vanished_env ''2025-11-08 10:00:00'' ''uploads/logo.png'')
       = Inl (PyException ''No such file or directory'')"
    by (simp add: analyze_not_eligible [OF id el] size)
  then show ?thesis
    by (simp add: id mime ext_logo returned_field_def)
qed

section \<open>Detection on a known line\<close>

text \<open>
  C7. For a file with the extension \<open>.txt\<close> that the classifier accepts, whose decoded
  content is the line \<open>My SSN is 123-45-6789 and email is a@b.com\<close> and whose size can be
  obtained, \<open>analyze_single_file\<close> returns a record with \<open>flagged\<close> true whose
  \<open>flag_reasons\<close> contain both \<open>ssn_us\<close> and \<open>email\<close>.
\<close>

theorem ssn_and_email_flagged:
  assumes "magika_identify env file_path = Inr out"
    and "lower (splitext_ext file_path) = ''.txt''"
    and "fst (safe_read env file_path default_max_bytes)
         = ''My SSN is 123-45-6789 and email is a@b.com''"
    and "getsize env file_path = Inr nbytes"
  shows "\<exists>r reasons. fst (analyze_single_file env timestamp file_path) = Inr r
           \<and> map_of r ''flagged'' = Some (Bool True)
           \<and> map_of r ''flag_reasons'' = Some (StrList reasons)
           \<and> ''ssn_us'' \<in> set reasons \<and> ''email'' \<in> set reasons"
proof -
  obtain enc where sr: "safe_read env file_path default_max_bytes = (ssn_line, enc)"
    using assms(3) by (cases "safe_read env file_path default_max_bytes") (simp add: ssn_line_def)
  have eligible: "text_eligible (classified_mime env out file_path) (lower (splitext_ext file_path))"
    by (simp add: text_eligible_def assms(2))
  have nonempty: "pii_matches ssn_line \<noteq> []"
    using ssn_line_has_ssn by auto
  have same: "set (list_of_set env (pii_matches ssn_line)) = set (pii_matches ssn_line)"
    by (simp add: list_of_set_def)
  have "''ssn_us'' \<in> set (list_of_set env (pii_matches ssn_line))"
    unfolding same by (rule ssn_line_has_ssn)
  moreover have "''email'' \<in> set (list_of_set env (pii_matches ssn_line))"
    unfolding same by (rule ssn_line_has_email)
  ultimately have "''ssn_us'' \<in> set (list_of_set env (pii_matches ssn_line))
      \<and> ''email'' \<in> set (list_of_set env (pii_matches ssn_line))"
    by (rule conjI)
  then show ?thesis
    using nonempty by (simp add: analyze_eligible [OF assms(1) eligible sr] assms(4))
qed

theorem ssn_and_email_flagged_witness:
  "magika_identify ssn_env ''uploads/notes.txt''
     = Inr \<lparr>mime_type = Some ''text/plain'', category = None, confidence = None\<rparr>
   \<and> lower (splitext_ext ''uploads/notes.txt'') = ''.txt''
   \<and> fst (safe_read ssn_env ''uploads/notes.txt'' default_max_bytes)
       = ''My SSN is 123-45-6789 and email is a@b.com''
   \<and> getsize ssn_env ''uploads/notes.txt'' = Inr 42
   \<and> (\<exists>r reasons.
          fst (analyze_single_file ssn_env ''2025-11-08 10:00:00'' ''uploads/notes.txt'') = Inr r
          \<and> map_of r ''flagged'' = Some (Bool True)
          \<and> map_of r ''flag_reasons'' = Some (StrList reasons)
          \<and> ''ssn_us'' \<in> set reasons \<and> ''email'' \<in> set reasons)"
proof -
  have identify: "magika_identify ssn_env ''uploads/notes.txt''
     = Inr \<lparr>mime_type = Some ''text/plain'', category = None, confidence = None\<rparr>"
    by (simp add: ssn_env_def sample_env_def sample_identify_def)
  have ext: "lower (splitext_ext ''uploads/notes.txt'') = ''.txt''"
    by code_simp
  have content: "fst (safe_read ssn_env ''uploads/notes.txt'' default_max_bytes)
       = ''My SSN is 123-45-6789 and email is a@b.com''"
    by (simp add: ssn_env_read ssn_line_def)
  have size: "getsize ssn_env ''uploads/notes.txt'' = Inr 42"
    by (simp add: ssn_env_def)
  from ssn_and_email_flagged [OF identify ext content size, of "''2025-11-08 10:00:00''"]
    identify ext content size
  show ?thesis by blast
qed


section \<open>Previews\<close>

text \<open>
  C9. In every record that \<open>analyze_single_file\<close> returns and in every record of a batch,
  the preview is a string of at most 5000 characters; when the classifier succeeded, the
  preview has no white space at its start or at its end.
\<close>

theorem preview_bounded:
  "(fst (analyze_single_file env timestamp file_path) = Inr r
      \<longrightarrow> (\<exists>s. map_of r ''preview'' = Some (Str s) \<and> length s \<le> 5000
               \<and> (magika_identify env file_path = Inr out \<longrightarrow> trimmed s)))
   \<and> (r' \<in> set (classify_files_batch pool file_paths)
      \<longrightarrow> (\<exists>s. map_of r' ''preview'' = Some (Str s) \<and> length s \<le> 5000))"
proof -
  have single: "\<exists>s. map_of r ''preview'' = Some (Str s) \<and> length s \<le> 5000
                  \<and> (magika_identify env file_path = Inr out \<longrightarrow> trimmed s)"
    if returned: "fst (analyze_single_file env timestamp file_path) = Inr r"
    for env timestamp file_path r out
  proof (cases "magika_identify env file_path")
    case (Inl e)
    from returned Inl show ?thesis
      by (auto simp: analyze_classifier_failure [OF Inl])
  next
    case (Inr output')
    obtain decoded enc where sr: "safe_read env file_path default_max_bytes = (decoded, enc)"
      by (cases "safe_read env file_path default_max_bytes")
    show ?thesis
    proof (cases "text_eligible (classified_mime env output' file_path) (lower (splitext_ext file_path))")
      case True
      from returned show ?thesis
        by (auto simp: analyze_eligible [OF Inr True sr] preview_length strip_trimmed
            split: sum.splits)
    next
      case False
      from returned show ?thesis
        by (auto simp: analyze_not_eligible [OF Inr False] preview_length strip_trimmed
            split: sum.splits)
    qed
  qed
  have batch: "\<exists>s. map_of r' ''preview'' = Some (Str s) \<and> length s \<le> 5000"
    if member: "r' \<in> set (classify_files_batch pool file_paths)"
  proof -
    from member obtain i path where r': "r' = collect pool (i, path)"
      unfolding batch_set by auto
    show ?thesis
    proof (cases "future_result pool i path")
      case (Inl e)
      then show ?thesis by (simp add: r' collect_def)
    next
      case (Inr res)
      then have "fst (analyze_single_file (worker_env pool i) (started pool i) path) = Inr res"
        by (simp add: future_result_def split: option.splits)
      from single [OF this] Inr show ?thesis
        by (auto simp: r' collect_def)
    qed
  qed
  from single batch show ?thesis by blast
qed

lemma sample_batch_has_logo:
  "logo_record ''2025-11-08 10:00:00'' \<in> set (classify_files_batch sample_pool sample_paths)"
proof -
  have "0 < length sample_paths"
    by (simp add: sample_paths_def)
  then have "(0, sample_paths ! 0) \<in> set (zip [0..<length sample_paths] sample_paths)"
    by (rule future_in_zip)
  moreover have "collect sample_pool (0, sample_paths ! 0) = logo_record ''2025-11-08 10:00:00''"
    by (simp add: collect_def sample_future_logo sample_logo_record)
  ultimately show ?thesis
    unfolding batch_set by force
qed

theorem preview_bounded_witness:
  "fst (analyze_single_file sample_env ''2025-11-08 10:00:00'' ''uploads/logo.png'')
     = Inr (logo_record ''2025-11-08 10:00:00'')
   \<and> magika_identify sample_env ''uploads/logo.png''
       = Inr \<lparr>mime_type = Some ''image/png'', category = None, confidence = None\<rparr>
   \<and> logo_record ''2025-11-08 10:00:00'' \<in> set (classify_files_batch sample_pool sample_paths)
   \<and> (\<exists>s. map_of (logo_record ''2025-11-08 10:00:00'') ''preview'' = Some (Str s)
          \<and> length s \<le> 5000 \<and> trimmed s)"
proof -
  note facts = preview_bounded [of sample_env "''2025-11-08 10:00:00''" "''uploads/logo.png''"
      "logo_record ''2025-11-08 10:00:00''"
      "\<lparr>mime_type = Some ''image/png'', category = None, confidence = None\<rparr>"
      "logo_record ''2025-11-08 10:00:00''" sample_pool sample_paths]
  from facts sample_logo_record [of "''2025-11-08 10:00:00''"] sample_identify_logo
    sample_batch_has_logo
  show ?thesis by blast
qed

section \<open>Bounded reader\<close>










section \<open>Flags and reasons\<close>

text \<open>
  C2, as the code has it. In the record of a file that the classifier accepted, \<open>flagged\<close>
  is true exactly when \<open>flag_reasons\<close> is not empty. The two failure records have
  \<open>flagged\<close> false and one entry in \<open>flag_reasons\<close>: the text of the error, after
  \<open>Magika error: \<close> or \<open>Worker error: \<close>.
\<close>

theorem flagged_iff_reasons_on_success:
  "(magika_identify env file_path = Inr out
      \<and> fst (analyze_single_file env timestamp file_path) = Inr r
      \<longrightarrow> (\<exists>flag reasons. map_of r ''flagged'' = Some (Bool flag)
             \<and> map_of r ''flag_reasons'' = Some (StrList reasons)
             \<and> flag = (reasons \<noteq> [])))
   \<and> (magika_identify env file_path = Inl e
      \<longrightarrow> (\<exists>r. fst (analyze_single_file env timestamp file_path) = Inr r
             \<and> map_of r ''flagged'' = Some (Bool False)
             \<and> map_of r ''flag_reasons'' = Some (StrList [''Magika error: '' @ message e])))
   \<and> (future_result pool i path = Inl e'
      \<longrightarrow> map_of (collect pool (i, path)) ''flagged'' = Some (Bool False)
          \<and> map_of (collect pool (i, path)) ''flag_reasons''
              = Some (StrList [''Worker error: '' @ message e']))"
proof (intro conjI impI)
  assume a: "magika_identify env file_path = Inr out
      \<and> fst (analyze_single_file env timestamp file_path) = Inr r"
  then have id: "magika_identify env file_path = Inr out"
    and returned: "fst (analyze_single_file env timestamp file_path) = Inr r"
    by simp_all
  obtain decoded enc where sr: "safe_read env file_path default_max_bytes = (decoded, enc)"
    by (cases "safe_read env file_path default_max_bytes")
  show "\<exists>flag reasons. map_of r ''flagged'' = Some (Bool flag)
             \<and> map_of r ''flag_reasons'' = Some (StrList reasons)
             \<and> flag = (reasons \<noteq> [])"
  proof (cases "text_eligible (classified_mime env out file_path) (lower (splitext_ext file_path))")
    case True
    from returned show ?thesis
      by (auto simp: analyze_eligible [OF id True sr] list_of_set_empty split: sum.splits)
  next
    case False
    from returned show ?thesis
      by (auto simp: analyze_not_eligible [OF id False] split: sum.splits)
  qed
next
  assume "magika_identify env file_path = Inl e"
  then show "\<exists>r. fst (analyze_single_file env timestamp file_path) = Inr r
             \<and> map_of r ''flagged'' = Some (Bool False)
             \<and> map_of r ''flag_reasons'' = Some (StrList [''Magika error: '' @ message e])"
    by (simp add: analyze_classifier_failure)
next
  assume "future_result pool i path = Inl e'"
  then show "map_of (collect pool (i, path)) ''flagged'' = Some (Bool False)"
    and "map_of (collect pool (i, path)) ''flag_reasons''
              = Some (StrList [''Worker error: '' @ message e'])"
    by (simp_all add: collect_def)
qed

theorem flagged_iff_reasons_on_success_witness:
  "magika_identify sample_env ''uploads/logo.png''
     = Inr \<lparr>mime_type = Some ''image/png'', category = None, confidence = None\<rparr>
   \<and> fst (analyze_single_file sample_env ''2025-11-08 10:00:00'' ''uploads/logo.png'')
       = Inr (logo_record ''2025-11-08 10:00:00'')
   \<and> (\<exists>flag reasons. map_of (logo_record ''2025-11-08 10:00:00'') ''flagged'' = Some (Bool flag)
          \<and> map_of (logo_record ''2025-11-08 10:00:00'') ''flag_reasons'' = Some (StrList reasons)
          \<and> flag = (reasons \<noteq> []))
   \<and> magika_identify sample_env ''uploads/down.bin'' = Inl (PyException ''model not loaded'')
   \<and> (\<exists>r. fst (analyze_single_file sample_env ''2025-11-08 10:00:00'' ''uploads/down.bin'') = Inr r
          \<and> map_of r ''flagged'' = Some (Bool False)
          \<and> map_of r ''flag_reasons'' = Some (StrList [''Magika error: model not loaded'']))
   \<and> future_result sample_pool 1 (sample_paths ! 1)
       = Inl (PyException ''No such file or directory'')
   \<and> map_of (collect sample_pool (1, sample_paths ! 1)) ''flag_reasons''
       = Some (StrList [''Worker error: No such file or directory''])"
proof -
  note success = flagged_iff_reasons_on_success [of sample_env "''uploads/logo.png''"
      "\<lparr>mime_type = Some ''image/png'', category = None, confidence = None\<rparr>"
      "''2025-11-08 10:00:00''" "logo_record ''2025-11-08 10:00:00''"]
  note failure = flagged_iff_reasons_on_success [of sample_env "''uploads/down.bin''" _
      "''2025-11-08 10:00:00''" _ "PyException ''model not loaded''" sample_pool 1
      "sample_paths ! 1" "PyException ''No such file or directory''"]
  have "\<exists>flag reasons. map_of (logo_record ''2025-11-08 10:00:00'') ''flagged'' = Some (Bool flag)
          \<and> map_of (logo_record ''2025-11-08 10:00:00'') ''flag_reasons'' = Some (StrList reasons)
          \<and> flag = (reasons \<noteq> [])"
    using success sample_identify_logo sample_logo_record by blast
  moreover
  have "\<exists>r. fst (analyze_single_file sample_env ''2025-11-08 10:00:00'' ''uploads/down.bin'') = Inr r
          \<and> map_of r ''flagged'' = Some (Bool False)
          \<and> map_of r ''flag_reasons'' = Some (StrList [''Magika error: model not loaded''])"
    using failure sample_identify_down by simp
  moreover
  have "map_of (collect sample_pool (1, sample_paths ! 1)) ''flag_reasons''
       = Some (StrList [''Worker error: No such file or directory''])"
    using failure sample_future_gone by simp
  ultimately show ?thesis
    using sample_identify_logo sample_logo_record sample_identify_down sample_future_gone
    by blast
qed

text \<open>
  The equivalence fails on a failure record: for \<open>down.bin\<close> the record has \<open>flagged\<close>
  false and one entry in \<open>flag_reasons\<close>.
\<close>

theorem flagged_iff_reasons_counterexample:
  "fst (analyze_single_file sample_env ''2025-11-08 10:00:00'' ''uploads/down.bin'')
     = Inr (down_record ''2025-11-08 10:00:00'')
   \<and> map_of (down_record ''2025-11-08 10:00:00'') ''flagged'' = Some (Bool False)
   \<and> map_of (down_record ''2025-11-08 10:00:00'') ''flag_reasons''
       = Some (StrList [''Magika error: model not loaded''])
   \<and> [''Magika error: model not loaded''] \<noteq> []"
  by (simp add: sample_down_record) (simp add: down_record_def)


section \<open>Fields of the records\<close>

text \<open>
  C6, as the code has it. The two failure records have the same ten fields; the record of
  a file that the classifier accepted has twelve, these ten and \<open>file_type\<close> and
  \<open>file_size\<close>.
\<close>

theorem record_keys:
  "(magika_identify env file_path = Inl e
      \<longrightarrow> (\<exists>r. fst (analyze_single_file env timestamp file_path) = Inr r
             \<and> keys r = [''file_name'', ''mime_type'', ''ai_category'', ''confidence'',
                         ''encoding'', ''language'', ''flagged'', ''flag_reasons'',
                         ''preview'', ''uploaded'']))
   \<and> (future_result pool i path = Inl e'
      \<longrightarrow> keys (collect pool (i, path))
          = [''file_name'', ''mime_type'', ''ai_category'', ''confidence'',
             ''encoding'', ''language'', ''flagged'', ''flag_reasons'',
             ''preview'', ''uploaded''])
   \<and> (magika_identify env file_path = Inr out
        \<and> fst (analyze_single_file env timestamp file_path) = Inr r
      \<longrightarrow> keys r = [''file_name'', ''mime_type'', ''ai_category'', ''file_type'',
                    ''encoding'', ''language'', ''file_size'', ''confidence'',
                    ''uploaded'', ''preview'', ''flagged'', ''flag_reasons''])"
proof (intro conjI impI)
  assume "magika_identify env file_path = Inl e"
  then show "\<exists>r. fst (analyze_single_file env timestamp file_path) = Inr r
             \<and> keys r = [''file_name'', ''mime_type'', ''ai_category'', ''confidence'',
                         ''encoding'', ''language'', ''flagged'', ''flag_reasons'',
                         ''preview'', ''uploaded'']"
    by (simp add: analyze_classifier_failure keys_def)
next
  assume "future_result pool i path = Inl e'"
  then show "keys (collect pool (i, path))
          = [''file_name'', ''mime_type'', ''ai_category'', ''confidence'',
             ''encoding'', ''language'', ''flagged'', ''flag_reasons'',
             ''preview'', ''uploaded'']"
    by (simp add: collect_def keys_def)
next
  assume a: "magika_identify env file_path = Inr out
        \<and> fst (analyze_single_file env timestamp file_path) = Inr r"
  then have id: "magika_identify env file_path = Inr out"
    and returned: "fst (analyze_single_file env timestamp file_path) = Inr r"
    by simp_all
  obtain decoded enc where sr: "safe_read env file_path default_max_bytes = (decoded, enc)"
    by (cases "safe_read env file_path default_max_bytes")
  show "keys r = [''file_name'', ''mime_type'', ''ai_category'', ''file_type'',
                    ''encoding'', ''language'', ''file_size'', ''confidence'',
                    ''uploaded'', ''preview'', ''flagged'', ''flag_reasons'']"
  proof (cases "text_eligible (classified_mime env out file_path) (lower (splitext_ext file_path))")
    case True
    from returned show ?thesis
      by (auto simp: analyze_eligible [OF id True sr] keys_def split: sum.splits)
  next
    case False
    from returned show ?thesis
      by (auto simp: analyze_not_eligible [OF id False] keys_def split: sum.splits)
  qed
qed

theorem record_keys_witness:
  "magika_identify sample_env ''uploads/down.bin'' = Inl (PyException ''model not loaded'')
   \<and> (\<exists>r. fst (analyze_single_file sample_env ''2025-11-08 10:00:00'' ''uploads/down.bin'') = Inr r
          \<and> keys r = [''file_name'', ''mime_type'', ''ai_category'', ''confidence'',
                      ''encoding'', ''language'', ''flagged'', ''flag_reasons'',
                      ''preview'', ''uploaded''])
   \<and> future_result sample_pool 1 (sample_paths ! 1)
       = Inl (PyException ''No such file or directory'')
   \<and> keys (collect sample_pool (1, sample_paths ! 1))
       = [''file_name'', ''mime_type'', ''ai_category'', ''confidence'',
          ''encoding'', ''language'', ''flagged'', ''flag_reasons'',
          ''preview'', ''uploaded'']
   \<and> magika_identify sample_env ''uploads/logo.png''
       = Inr \<lparr>mime_type = Some ''image/png'', category = None, confidence = None\<rparr>
   \<and> fst (analyze_single_file sample_env ''2025-11-08 10:00:00'' ''uploads/logo.png'')
       = Inr (logo_record ''2025-11-08 10:00:00'')
   \<and> keys (logo_record ''2025-11-08 10:00:00'')
       = [''file_name'', ''mime_type'', ''ai_category'', ''file_type'',
          ''encoding'', ''language'', ''file_size'', ''confidence'',
          ''uploaded'', ''preview'', ''flagged'', ''flag_reasons'']"
proof -
  note failure = record_keys [of sample_env "''uploads/down.bin''"
      "PyException ''model not loaded''" "''2025-11-08 10:00:00''" sample_pool 1
      "sample_paths ! 1" "PyException ''No such file or directory''"]
  note success = record_keys [of sample_env "''uploads/logo.png''" _
      "''2025-11-08 10:00:00''" _ _ _ _
      "\<lparr>mime_type = Some ''image/png'', category = None, confidence = None\<rparr>"
      "logo_record ''2025-11-08 10:00:00''"]
  have "\<exists>r. fst (analyze_single_file sample_env ''2025-11-08 10:00:00'' ''uploads/down.bin'') = Inr r
          \<and> keys r = [''file_name'', ''mime_type'', ''ai_category'', ''confidence'',
                      ''encoding'', ''language'', ''flagged'', ''flag_reasons'',
                      ''preview'', ''uploaded'']"
    using failure sample_identify_down by blast
  moreover have "keys (collect sample_pool (1, sample_paths ! 1))
       = [''file_name'', ''mime_type'', ''ai_category'', ''confidence'',
          ''encoding'', ''language'', ''flagged'', ''flag_reasons'',
          ''preview'', ''uploaded'']"
    using failure sample_future_gone by blast
  moreover have "keys (logo_record ''2025-11-08 10:00:00'')
       = [''file_name'', ''mime_type'', ''ai_category'', ''file_type'',
          ''encoding'', ''language'', ''file_size'', ''confidence'',
          ''uploaded'', ''preview'', ''flagged'', ''flag_reasons'']"
    using success sample_identify_logo sample_logo_record by blast
  ultimately show ?thesis
    using sample_identify_down sample_future_gone sample_identify_logo sample_logo_record
    by blast
qed

text \<open>
  The record of \<open>logo.png\<close> has the fields \<open>file_type\<close> and \<open>file_size\<close>; the failure
  record of \<open>down.bin\<close> has neither.
\<close>

theorem record_keys_counterexample:
  "fst (analyze_single_file sample_env ''2025-11-08 10:00:00'' ''uploads/down.bin'')
     = Inr (down_record ''2025-11-08 10:00:00'')
   \<and> fst (analyze_single_file sample_env ''2025-11-08 10:00:00'' ''uploads/logo.png'')
       = Inr (logo_record ''2025-11-08 10:00:00'')
   \<and> map_of (logo_record ''2025-11-08 10:00:00'') ''file_type'' = Some (Str ''png'')
   \<and> map_of (logo_record ''2025-11-08 10:00:00'') ''file_size'' = Some (Str ''7 bytes'')
   \<and> map_of (down_record ''2025-11-08 10:00:00'') ''file_type'' = None
   \<and> map_of (down_record ''2025-11-08 10:00:00'') ''file_size'' = None
   \<and> set (keys (down_record ''2025-11-08 10:00:00''))
       \<noteq> set (keys (logo_record ''2025-11-08 10:00:00''))"
proof -
  have "''file_type'' \<in> set (keys (logo_record ''2025-11-08 10:00:00''))"
    by (simp add: keys_def logo_record_def)
  moreover have "''file_type'' \<notin> set (keys (down_record ''2025-11-08 10:00:00''))"
    by (simp add: keys_def down_record_def)
  ultimately have "set (keys (down_record ''2025-11-08 10:00:00''))
       \<noteq> set (keys (logo_record ''2025-11-08 10:00:00''))"
    by blast
  moreover have "map_of (logo_record ''2025-11-08 10:00:00'') ''file_type'' = Some (Str ''png'')"
    and "map_of (logo_record ''2025-11-08 10:00:00'') ''file_size'' = Some (Str ''7 bytes'')"
    by (simp_all add: logo_record_def)
  moreover have "map_of (down_record ''2025-11-08 10:00:00'') ''file_type'' = None"
    and "map_of (down_record ''2025-11-08 10:00:00'') ''file_size'' = None"
    by (simp_all add: down_record_def)
  ultimately show ?thesis
    using sample_down_record sample_logo_record by blast
qed

section \<open>Determinism\<close>

lemma other_seed_safe_read:
  "safe_read (env\<lparr>set_slot := slot\<rparr>) file_path max_bytes = safe_read env file_path max_bytes"
  by (simp add: safe_read_def read_raw_def cong: sum.case_cong)

lemma other_seed_language:
  "detect_language (env\<lparr>set_slot := slot\<rparr>) decoded = detect_language env decoded"
  by (simp add: detect_language_def cong: sum.case_cong list.case_cong)

lemma other_seed_mime:
  "classified_mime (env\<lparr>set_slot := slot\<rparr>) out file_path = classified_mime env out file_path"
  by (simp add: classified_mime_def)

lemma other_seed_reasons:
  "mset (list_of_set (env\<lparr>set_slot := slot\<rparr>) xs) = mset (list_of_set env xs)"
  by (simp add: list_of_set_def)

lemma other_seed_failure:
  assumes "magika_identify env file_path = Inl err"
  shows "(fst (analyze_single_file env t1 file_path) = Inl e
      \<longrightarrow> fst (analyze_single_file (env\<lparr>set_slot := slot\<rparr>) t2 file_path) = Inl e)
   \<and> (fst (analyze_single_file env t1 file_path) = Inr r1
      \<longrightarrow> (\<exists>r2. fst (analyze_single_file (env\<lparr>set_slot := slot\<rparr>) t2 file_path) = Inr r2
             \<and> keys r2 = keys r1
             \<and> (k \<noteq> ''uploaded'' \<and> k \<noteq> ''flag_reasons'' \<longrightarrow> map_of r2 k = map_of r1 k)
             \<and> (\<exists>reasons1 reasons2.
                   map_of r1 ''flag_reasons'' = Some (StrList reasons1)
                   \<and> map_of r2 ''flag_reasons'' = Some (StrList reasons2)
                   \<and> mset reasons2 = mset reasons1)
             \<and> (slot = set_slot env \<and> k \<noteq> ''uploaded'' \<longrightarrow> map_of r2 k = map_of r1 k)))"
proof -
  from assms have id': "magika_identify (env\<lparr>set_slot := slot\<rparr>) file_path = Inl err"
    by simp
  show ?thesis
  proof (intro conjI impI)
    assume "fst (analyze_single_file env t1 file_path) = Inl e"
    then show "fst (analyze_single_file (env\<lparr>set_slot := slot\<rparr>) t2 file_path) = Inl e"
      by (simp add: analyze_classifier_failure [OF assms])
  next
    assume "fst (analyze_single_file env t1 file_path) = Inr r1"
    then have r1: "r1 = projr (fst (analyze_single_file env t1 file_path))"
      by simp
    show "\<exists>r2. fst (analyze_single_file (env\<lparr>set_slot := slot\<rparr>) t2 file_path) = Inr r2
             \<and> keys r2 = keys r1
             \<and> (k \<noteq> ''uploaded'' \<and> k \<noteq> ''flag_reasons'' \<longrightarrow> map_of r2 k = map_of r1 k)
             \<and> (\<exists>reasons1 reasons2.
                   map_of r1 ''flag_reasons'' = Some (StrList reasons1)
                   \<and> map_of r2 ''flag_reasons'' = Some (StrList reasons2)
                   \<and> mset reasons2 = mset reasons1)
             \<and> (slot = set_slot env \<and> k \<noteq> ''uploaded'' \<longrightarrow> map_of r2 k = map_of r1 k)"
      unfolding r1 analyze_classifier_failure [OF assms] analyze_classifier_failure [OF id']
      by (simp add: keys_def)
  qed
qed

lemma other_seed_not_eligible:
  assumes "magika_identify env file_path = Inr out"
    and "\<not> text_eligible (classified_mime env out file_path) (lower (splitext_ext file_path))"
  shows "(fst (analyze_single_file env t1 file_path) = Inl e
      \<longrightarrow> fst (analyze_single_file (env\<lparr>set_slot := slot\<rparr>) t2 file_path) = Inl e)
   \<and> (fst (analyze_single_file env t1 file_path) = Inr r1
      \<longrightarrow> (\<exists>r2. fst (analyze_single_file (env\<lparr>set_slot := slot\<rparr>) t2 file_path) = Inr r2
             \<and> keys r2 = keys r1
             \<and> (k \<noteq> ''uploaded'' \<and> k \<noteq> ''flag_reasons'' \<longrightarrow> map_of r2 k = map_of r1 k)
             \<and> (\<exists>reasons1 reasons2.
                   map_of r1 ''flag_reasons'' = Some (StrList reasons1)
                   \<and> map_of r2 ''flag_reasons'' = Some (StrList reasons2)
                   \<and> mset reasons2 = mset reasons1)
             \<and> (slot = set_slot env \<and> k \<noteq> ''uploaded'' \<longrightarrow> map_of r2 k = map_of r1 k)))"
proof -
  from assms(1) have id': "magika_identify (env\<lparr>set_slot := slot\<rparr>) file_path = Inr out"
    by simp
  from assms(2)
  have el': "\<not> text_eligible (classified_mime (env\<lparr>set_slot := slot\<rparr>) out file_path)
        (lower (splitext_ext file_path))"
    by (simp add: other_seed_mime)
  show ?thesis
  proof (intro conjI impI)
    assume "fst (analyze_single_file env t1 file_path) = Inl e"
    then show "fst (analyze_single_file (env\<lparr>set_slot := slot\<rparr>) t2 file_path) = Inl e"
      unfolding analyze_not_eligible [OF assms] analyze_not_eligible [OF id' el']
      by (cases "getsize env file_path") simp_all
  next
    assume "fst (analyze_single_file env t1 file_path) = Inr r1"
    then have r1: "r1 = projr (fst (analyze_single_file env t1 file_path))"
      by simp
    from \<open>fst (analyze_single_file env t1 file_path) = Inr r1\<close>
    obtain nbytes where size: "getsize env file_path = Inr nbytes"
      unfolding analyze_not_eligible [OF assms]
      by (cases "getsize env file_path") simp_all
    show "\<exists>r2. fst (analyze_single_file (env\<lparr>set_slot := slot\<rparr>) t2 file_path) = Inr r2
             \<and> keys r2 = keys r1
             \<and> (k \<noteq> ''uploaded'' \<and> k \<noteq> ''flag_reasons'' \<longrightarrow> map_of r2 k = map_of r1 k)
             \<and> (\<exists>reasons1 reasons2.
                   map_of r1 ''flag_reasons'' = Some (StrList reasons1)
                   \<and> map_of r2 ''flag_reasons'' = Some (StrList reasons2)
                   \<and> mset reasons2 = mset reasons1)
             \<and> (slot = set_slot env \<and> k \<noteq> ''uploaded'' \<longrightarrow> map_of r2 k = map_of r1 k)"
      unfolding r1 analyze_not_eligible [OF assms] analyze_not_eligible [OF id' el']
      by (simp add: size keys_def other_seed_mime other_seed_language other_seed_reasons)
  qed
qed

lemma other_seed_eligible:
  assumes "magika_identify env file_path = Inr out"
    and "text_eligible (classified_mime env out file_path) (lower (splitext_ext file_path))"
  shows "(fst (analyze_single_file env t1 file_path) = Inl e
      \<longrightarrow> fst (analyze_single_file (env\<lparr>set_slot := slot\<rparr>) t2 file_path) = Inl e)
   \<and> (fst (analyze_single_file env t1 file_path) = Inr r1
      \<longrightarrow> (\<exists>r2. fst (analyze_single_file (env\<lparr>set_slot := slot\<rparr>) t2 file_path) = Inr r2
             \<and> keys r2 = keys r1
             \<and> (k \<noteq> ''uploaded'' \<and> k \<noteq> ''flag_reasons'' \<longrightarrow> map_of r2 k = map_of r1 k)
             \<and> (\<exists>reasons1 reasons2.
                   map_of r1 ''flag_reasons'' = Some (StrList reasons1)
                   \<and> map_of r2 ''flag_reasons'' = Some (StrList reasons2)
                   \<and> mset reasons2 = mset reasons1)
             \<and> (slot = set_slot env \<and> k \<noteq> ''uploaded'' \<longrightarrow> map_of r2 k = map_of r1 k)))"
proof -
  from assms(1) have id': "magika_identify (env\<lparr>set_slot := slot\<rparr>) file_path = Inr out"
    by simp
  from assms(2)
  have el': "text_eligible (classified_mime (env\<lparr>set_slot := slot\<rparr>) out file_path)
        (lower (splitext_ext file_path))"
    by (simp add: other_seed_mime)
  obtain decoded enc where sr: "safe_read env file_path default_max_bytes = (decoded, enc)"
    by (cases "safe_read env file_path default_max_bytes")
  then have sr': "safe_read (env\<lparr>set_slot := slot\<rparr>) file_path default_max_bytes = (decoded, enc)"
    by (simp add: other_seed_safe_read)
  have same: "slot = set_slot env \<Longrightarrow>
      list_of_set (env\<lparr>set_slot := slot\<rparr>) (pii_matches decoded)
      = list_of_set env (pii_matches decoded)"
    by (simp add: list_of_set_def)
  show ?thesis
  proof (intro conjI impI)
    assume "fst (analyze_single_file env t1 file_path) = Inl e"
    then show "fst (analyze_single_file (env\<lparr>set_slot := slot\<rparr>) t2 file_path) = Inl e"
      unfolding analyze_eligible [OF assms sr] analyze_eligible [OF id' el' sr']
      by (cases "getsize env file_path") simp_all
  next
    assume "fst (analyze_single_file env t1 file_path) = Inr r1"
    then have r1: "r1 = projr (fst (analyze_single_file env t1 file_path))"
      by simp
    from \<open>fst (analyze_single_file env t1 file_path) = Inr r1\<close>
    obtain nbytes where size: "getsize env file_path = Inr nbytes"
      unfolding analyze_eligible [OF assms sr]
      by (cases "getsize env file_path") simp_all
    show "\<exists>r2. fst (analyze_single_file (env\<lparr>set_slot := slot\<rparr>) t2 file_path) = Inr r2
             \<and> keys r2 = keys r1
             \<and> (k \<noteq> ''uploaded'' \<and> k \<noteq> ''flag_reasons'' \<longrightarrow> map_of r2 k = map_of r1 k)
             \<and> (\<exists>reasons1 reasons2.
                   map_of r1 ''flag_reasons'' = Some (StrList reasons1)
                   \<and> map_of r2 ''flag_reasons'' = Some (StrList reasons2)
                   \<and> mset reasons2 = mset reasons1)
             \<and> (slot = set_slot env \<and> k \<noteq> ''uploaded'' \<longrightarrow> map_of r2 k = map_of r1 k)"
      unfolding r1 analyze_eligible [OF assms sr] analyze_eligible [OF id' el' sr']
      using same by (simp add: size keys_def other_seed_mime other_seed_language other_seed_reasons)
  qed
qed

text \<open>
  C10, as the code has it. Take two runs of \<open>analyze_single_file\<close> on the same path, in
  environments that agree on the file, the classifier, the detectors and every other
  library call, and that may differ in the time and in the iteration order of sets. If
  one raises, the other raises the same exception. If one returns a record, the other
  returns a record with the same fields, equal in every field except \<open>uploaded\<close> and
  \<open>flag_reasons\<close>; the two lists of reasons hold the same entries, possibly in another
  order; and when the iteration order of sets is the same in both runs, the records are
  equal in every field except \<open>uploaded\<close>.
\<close>

theorem analysis_deterministic:
  "(fst (analyze_single_file env t1 file_path) = Inl e
      \<longrightarrow> fst (analyze_single_file (env\<lparr>set_slot := slot\<rparr>) t2 file_path) = Inl e)
   \<and> (fst (analyze_single_file env t1 file_path) = Inr r1
      \<longrightarrow> (\<exists>r2. fst (analyze_single_file (env\<lparr>set_slot := slot\<rparr>) t2 file_path) = Inr r2
             \<and> keys r2 = keys r1
             \<and> (k \<noteq> ''uploaded'' \<and> k \<noteq> ''flag_reasons'' \<longrightarrow> map_of r2 k = map_of r1 k)
             \<and> (\<exists>reasons1 reasons2.
                   map_of r1 ''flag_reasons'' = Some (StrList reasons1)
                   \<and> map_of r2 ''flag_reasons'' = Some (StrList reasons2)
                   \<and> mset reasons2 = mset reasons1)
             \<and> (slot = set_slot env \<and> k \<noteq> ''uploaded'' \<longrightarrow> map_of r2 k = map_of r1 k)))"
proof (cases "magika_identify env file_path")
  case (Inl err)
  then show ?thesis by (rule other_seed_failure)
next
  case (Inr out)
  show ?thesis
  proof (cases "text_eligible (classified_mime env out file_path) (lower (splitext_ext file_path))")
    case True
    with Inr show ?thesis by (rule other_seed_eligible)
  next
    case False
    with Inr show ?thesis by (rule other_seed_not_eligible)
  qed
qed

lemma sample_notes_other_order:
  "list_of_set sample_env_other_seed [''password_label'', ''spanish_ssn_label'']
   = [''spanish_ssn_label'', ''password_label'']"
  by (simp add: list_of_set_def sample_env_other_seed_def)

lemma sample_notes_reasons:
  "returned_field (analyze_single_file sample_env timestamp ''uploads/notes.txt'') ''flag_reasons''
   = Some (StrList [''password_label'', ''spanish_ssn_label''])"
proof -
  have "getsize sample_env ''uploads/notes.txt'' = Inr 7"
    by (simp add: sample_env_def)
  then show ?thesis
    by (simp add: returned_field_def
        analyze_eligible [OF sample_notes_identify sample_notes_eligible sample_notes_read]
        sample_notes_matches sample_notes_order)
qed

lemma sample_notes_other_reasons:
  "returned_field (analyze_single_file sample_env_other_seed timestamp ''uploads/notes.txt'')
     ''flag_reasons''
   = Some (StrList [''spanish_ssn_label'', ''password_label''])"
proof -
  have id: "magika_identify sample_env_other_seed ''uploads/notes.txt''
      = Inr \<lparr>mime_type = Some ''text/plain'', category = None, confidence = None\<rparr>"
    by (simp add: sample_env_other_seed_def sample_notes_identify)
  have el: "text_eligible
     (classified_mime sample_env_other_seed
        \<lparr>mime_type = Some ''text/plain'', category = None, confidence = None\<rparr>
        ''uploads/notes.txt'')
     (lower (splitext_ext ''uploads/notes.txt''))"
    by (simp add: text_eligible_def classified_mime_def or_else_def)
  have sr: "safe_read sample_env_other_seed ''uploads/notes.txt'' default_max_bytes
      = (''pwd dni'', ''ascii'')"
    by (simp add: sample_env_other_seed_def other_seed_safe_read sample_notes_read)
  have "getsize sample_env_other_seed ''uploads/notes.txt'' = Inr 7"
    by (simp add: sample_env_other_seed_def sample_env_def)
  then show ?thesis
    by (simp add: returned_field_def analyze_eligible [OF id el sr]
        sample_notes_matches sample_notes_other_order)
qed

text \<open>
  Two runs on \<open>notes.txt\<close> at the same time, in environments that differ only in the
  iteration order of sets, return the two reasons in opposite orders.
\<close>

theorem analysis_deterministic_counterexample:
  "sample_env_other_seed\<lparr>set_slot := set_slot sample_env\<rparr> = sample_env
   \<and> returned_field
       (analyze_single_file sample_env ''2025-11-08 10:00:00'' ''uploads/notes.txt'')
       ''flag_reasons''
     = Some (StrList [''password_label'', ''spanish_ssn_label''])
   \<and> returned_field
       (analyze_single_file sample_env_other_seed ''2025-11-08 10:00:00'' ''uploads/notes.txt'')
       ''flag_reasons''
     = Some (StrList [''spanish_ssn_label'', ''password_label''])
   \<and> [''password_label'', ''spanish_ssn_label''] \<noteq> [''spanish_ssn_label'', ''password_label'']"
proof -
  have "sample_env_other_seed\<lparr>set_slot := set_slot sample_env\<rparr> = sample_env"
    by (simp add: sample_env_other_seed_def)
  then show ?thesis
    by (simp add: sample_notes_reasons sample_notes_other_reasons)
qed

theorem analysis_deterministic_witness:
  "fst (analyze_single_file sample_env ''2025-11-08 10:00:00'' ''uploads/logo.png'')
     = Inr (logo_record ''2025-11-08 10:00:00'')
   \<and> ''preview'' \<noteq> ''uploaded'' \<and> ''preview'' \<noteq> ''flag_reasons''
   \<and> (\<exists>r2. fst (analyze_single_file (sample_env\<lparr>set_slot := (\<lambda>s. 100 - length s)\<rparr>)
                ''2025-11-08 10:05:00'' ''uploads/logo.png'') = Inr r2
          \<and> keys r2 = keys (logo_record ''2025-11-08 10:00:00'')
          \<and> map_of r2 ''preview'' = map_of (logo_record ''2025-11-08 10:00:00'') ''preview''
          \<and> (\<exists>reasons1 reasons2.
                map_of (logo_record ''2025-11-08 10:00:00'') ''flag_reasons''
                  = Some (StrList reasons1)
                \<and> map_of r2 ''flag_reasons'' = Some (StrList reasons2)
                \<and> mset reasons2 = mset reasons1))"
proof -
  have distinct: "''preview'' \<noteq> ''uploaded''" "''preview'' \<noteq> ''flag_reasons''"
    by simp_all
  note facts = analysis_deterministic [of sample_env "''2025-11-08 10:00:00''" "''uploads/logo.png''"
      _ "\<lambda>s. 100 - length s" "''2025-11-08 10:05:00''" "logo_record ''2025-11-08 10:00:00''"
      "''preview''"]
  from facts sample_logo_record [of "''2025-11-08 10:00:00''"] distinct
  have "\<exists>r2. fst (analyze_single_file (sample_env\<lparr>set_slot := (\<lambda>s. 100 - length s)\<rparr>)
                ''2025-11-08 10:05:00'' ''uploads/logo.png'') = Inr r2
          \<and> keys r2 = keys (logo_record ''2025-11-08 10:00:00'')
          \<and> map_of r2 ''preview'' = map_of (logo_record ''2025-11-08 10:00:00'') ''preview''
          \<and> (\<exists>reasons1 reasons2.
                map_of (logo_record ''2025-11-08 10:00:00'') ''flag_reasons''
                  = Some (StrList reasons1)
                \<and> map_of r2 ''flag_reasons'' = Some (StrList reasons2)
                \<and> mset reasons2 = mset reasons1)"
    by blast
  with sample_logo_record [of "''2025-11-08 10:00:00''"] distinct
  show ?thesis by blast
qed

end
